theory Spec2Isabelle
  imports Complex_Main "HOL-Library.Multiset"
begin

section \<open>Data model\<close>

text \<open>
  The script \<^verbatim>\<open>dpo_train.py\<close> is a sequence of calls into external libraries
  (datasets, transformers, trl, peft, torch, pandas) and into modules of the repository
  that the script only imports (\<^verbatim>\<open>config\<close>, \<^verbatim>\<open>model.chat_model\<close>,
  \<^verbatim>\<open>utils.functions\<close>). The authored logic is the order of the calls, the
  arguments handed to them, and a little string arithmetic on paths.

  Python text is modelled as \<^typ>\<open>string\<close> (the UTF-8 bytes of the text). The
  only characters the script looks at are the ASCII slash and the ASCII marker it appends;
  the byte of the slash never occurs inside a multi-byte UTF-8 sequence.
\<close>

text \<open>One row of the preference dataset: the three text columns the script reads.\<close>

record sample =
  prompt :: string
  chosen :: string
  rejected :: string

text \<open>
  The fields of \<^verbatim>\<open>DpoConfig\<close> that the script reads. The class lives in
  \<^verbatim>\<open>config.py\<close>; its values are an input of the model. Floating-point settings
  are only handed on, never computed with; they are carried as rationals.
\<close>

record DpoConfig =
  tokenizer_dir :: string
  sft_model_file :: string
  dpo_train_file :: string
  per_device_train_batch_size :: int
  num_train_epochs :: int
  gradient_accumulation_steps :: int
  learning_rate :: rat
  logging_steps :: int
  save_steps :: int
  output_dir :: string
  warmup_steps :: int
  fp16 :: bool
  seed :: int
  log_dir :: string
  beta :: rat
  max_seq_len :: int

datatype TaskType = SEQ_2_SEQ_LM | CAUSAL_LM

record LoraConfig =
  task_type :: TaskType
  inference_mode :: bool
  lora_r :: int
  lora_alpha :: int
  lora_dropout :: rat
  lora_bias :: string

text \<open>
  A value returned by a library call. Library objects (tokenizer, model, trainer, data
  frame, ...) are opaque to the script and are named by a handle.
\<close>

datatype pyval =
    PyNone
  | PyBool bool
  | PyInt int
  | PyStr string
  | PyRows "sample list"
  | PyObj nat

text \<open>Keyword arguments of \<^verbatim>\<open>TrainingArguments(...)\<close>, lines 72-91.\<close>

record TrainingArguments_kwargs =
  ta_per_device_train_batch_size :: int
  ta_num_train_epochs :: int
  ta_auto_find_batch_size :: bool
  ta_remove_unused_columns :: bool
  ta_gradient_accumulation_steps :: int
  ta_learning_rate :: rat
  ta_logging_first_step :: bool
  ta_logging_steps :: int
  ta_save_steps :: int
  ta_output_dir :: string
  ta_optim :: string
  ta_report_to :: string
  ta_log_level :: string
  ta_warmup_steps :: int
  ta_bf16 :: bool
  ta_fp16 :: bool
  ta_seed :: int
  ta_logging_dir :: string

text \<open>Arguments of \<^verbatim>\<open>DPOTrainer(...)\<close>, lines 94-108.\<close>

record DPOTrainer_kwargs =
  dt_model :: pyval
  dt_ref_model :: pyval
  dt_peft_config :: "LoraConfig option"
  dt_args :: pyval
  dt_beta :: rat
  dt_train_dataset :: "sample list"
  dt_eval_dataset :: pyval
  dt_tokenizer :: pyval
  dt_max_length :: int
  dt_max_target_length :: int
  dt_max_prompt_length :: int
  dt_generate_during_eval :: bool
  dt_is_encoder_decoder :: bool

text \<open>
  Every call the script makes outside its own code, with the arguments it passes. The
  callback handed to \<^verbatim>\<open>Dataset.map\<close> is always \<^verbatim>\<open>split_prompt_and_responses\<close>
  and is not recorded in the call.
\<close>

datatype call =
    Load_dataset string string string string
  | Dataset_map "sample list"
  | Dataset_shuffle "nat option" "sample list"
  | PreTrainedTokenizerFast_from_pretrained string
  | Os_path_isdir string
  | TextToTextModel_from_pretrained string
  | T5ModelConfig_init
  | Len pyval
  | Getattr pyval string
  | Get_T5_config pyval pyval pyval pyval
  | TextToTextModel_init pyval
  | Torch_load string string
  | Load_state_dict pyval pyval
  | TrainingArguments_init TrainingArguments_kwargs
  | DPOTrainer_init DPOTrainer_kwargs
  | DPOTrainer_train pyval
  | Pd_DataFrame pyval
  | Time_strftime string
  | DataFrame_to_csv pyval string
  | DPOTrainer_save_model pyval string
  | Print string
  | PeftModel_from_pretrained pyval string LoraConfig string
  | PeftModel_load_adapter pyval string string
  | PeftModel_merge_and_unload pyval
  | Save_pretrained pyval string

text \<open>
  The libraries are a parameter of the model. A call runs in a world \<open>'w\<close> (file
  system, heap of library objects, clock, random state), may change it, and either
  returns or raises an exception \<open>'e\<close>. The five calls whose result the script itself
  inspects are typed; every other call returns an opaque value.
\<close>

record ('w, 'e) library =
  load_dataset :: "string \<Rightarrow> string \<Rightarrow> string \<Rightarrow> string \<Rightarrow> 'w \<Rightarrow> ('e + sample list) \<times> 'w"
  dataset_map :: "(sample \<Rightarrow> sample) \<Rightarrow> sample list \<Rightarrow> 'w \<Rightarrow> ('e + sample list) \<times> 'w"
  dataset_shuffle :: "nat option \<Rightarrow> sample list \<Rightarrow> 'w \<Rightarrow> ('e + sample list) \<times> 'w"
  os_path_isdir :: "string \<Rightarrow> 'w \<Rightarrow> ('e + bool) \<times> 'w"
  time_strftime :: "string \<Rightarrow> 'w \<Rightarrow> ('e + string) \<times> 'w"
  lib_call :: "call \<Rightarrow> 'w \<Rightarrow> ('e + pyval) \<times> 'w"

section \<open>Sequencing of calls\<close>

text \<open>
  A run yields a result or the exception that ended it, the list of library calls made
  (each with what it returned or raised), and the world it leaves behind.
\<close>

type_synonym 'e event = "call \<times> ('e + pyval)"

type_synonym ('w, 'e, 'a) prog = "'w \<Rightarrow> ('e + 'a) \<times> 'e event list \<times> 'w"

definition ret :: "'a \<Rightarrow> ('w, 'e, 'a) prog" where
  "ret a = (\<lambda>w. (Inr a, [], w))"

text \<open>
  Statement after statement: an exception of the first part ends the run, since the
  script has no \<^verbatim>\<open>try\<close>.
\<close>

definition seq :: "('w, 'e, 'a) prog \<Rightarrow> ('a \<Rightarrow> ('w, 'e, 'b) prog) \<Rightarrow> ('w, 'e, 'b) prog" where
  "seq m f = (\<lambda>w. case m w of
       (Inl e, t, w1) \<Rightarrow> (Inl e, t, w1)
     | (Inr a, t, w1) \<Rightarrow> (case f a w1 of (r, t2, w2) \<Rightarrow> (r, t @ t2, w2)))"

definition invoke :: "call \<Rightarrow> ('a \<Rightarrow> pyval) \<Rightarrow> ('w \<Rightarrow> ('e + 'a) \<times> 'w) \<Rightarrow> ('w, 'e, 'a) prog" where
  "invoke c as_py f = (\<lambda>w. case f w of (r, w1) \<Rightarrow> (r, [(c, map_sum id as_py r)], w1))"

definition py_call :: "('w, 'e) library \<Rightarrow> call \<Rightarrow> ('w, 'e, pyval) prog" where
  "py_call L c = invoke c id (lib_call L c)"

definition py_load_dataset ::
  "('w, 'e) library \<Rightarrow> string \<Rightarrow> string \<Rightarrow> string \<Rightarrow> string \<Rightarrow> ('w, 'e, sample list) prog" where
  "py_load_dataset L fmt file split cache_dir =
     invoke (Load_dataset fmt file split cache_dir) PyRows (load_dataset L fmt file split cache_dir)"

definition py_dataset_map ::
  "('w, 'e) library \<Rightarrow> (sample \<Rightarrow> sample) \<Rightarrow> sample list \<Rightarrow> ('w, 'e, sample list) prog" where
  "py_dataset_map L f ds = invoke (Dataset_map ds) PyRows (dataset_map L f ds)"

definition py_dataset_shuffle ::
  "('w, 'e) library \<Rightarrow> nat option \<Rightarrow> sample list \<Rightarrow> ('w, 'e, sample list) prog" where
  "py_dataset_shuffle L sd ds = invoke (Dataset_shuffle sd ds) PyRows (dataset_shuffle L sd ds)"

definition py_isdir :: "('w, 'e) library \<Rightarrow> string \<Rightarrow> ('w, 'e, bool) prog" where
  "py_isdir L p = invoke (Os_path_isdir p) PyBool (os_path_isdir L p)"

definition py_strftime :: "('w, 'e) library \<Rightarrow> string \<Rightarrow> ('w, 'e, string) prog" where
  "py_strftime L fmt = invoke (Time_strftime fmt) PyStr (time_strftime L fmt)"

section \<open>Python string operations used on paths\<close>

text \<open>\<^verbatim>\<open>s.split(c)\<close> for a one-character separator: never empty, \<^verbatim>\<open>''.split('/') == ['']\<close>.\<close>

fun split :: "string \<Rightarrow> char \<Rightarrow> string list" where
  "split [] c = [[]]"
| "split (x # xs) c =
     (if x = c then [] # split xs c
      else (x # hd (split xs c)) # tl (split xs c))"

text \<open>\<^verbatim>\<open>sep.join(parts)\<close>.\<close>

fun join :: "string \<Rightarrow> string list \<Rightarrow> string" where
  "join sep [] = []"
| "join sep [s] = s"
| "join sep (s # t # ss) = s @ sep @ join sep (t # ss)"

text \<open>The slice \<^verbatim>\<open>xs[0: -1]\<close>: the stop index \<open>-1\<close> is \<open>len(xs) - 1\<close>, not below 0.\<close>

definition slice_0_m1 :: "'a list \<Rightarrow> 'a list" where
  "slice_0_m1 xs = take (length xs - 1) xs"

section \<open>The script\<close>

subsection \<open>\<^verbatim>\<open>get_dataset\<close>, lines 20-40\<close>

definition split_prompt_and_responses :: "sample \<Rightarrow> sample" where
  "split_prompt_and_responses s =
     \<lparr> prompt = prompt s @ ''[EOS]'',
       chosen = chosen s @ ''[EOS]'',
       rejected = rejected s @ ''[EOS]'' \<rparr>"

definition get_dataset ::
  "('w, 'e) library \<Rightarrow> string \<Rightarrow> string \<Rightarrow> string \<Rightarrow> ('w, 'e, sample list) prog" where
  "get_dataset L split_name file cache_dir =
     seq (py_load_dataset L ''json'' file split_name cache_dir) (\<lambda>dataset.
     seq (py_dataset_map L split_prompt_and_responses dataset) (\<lambda>mapped.
     py_dataset_shuffle L (Some 2333) mapped))"

subsection \<open>\<^verbatim>\<open>train_dpo\<close>, lines 43-124\<close>

text \<open>
  The directory the result is saved to, lines 120-121. \<open>peft_config\<close> is the optional
  adapter configuration; \<^verbatim>\<open>is not None\<close> is \<open>\<noteq> None\<close>.
\<close>

definition model_save_dir :: "DpoConfig \<Rightarrow> LoraConfig option \<Rightarrow> string" where
  "model_save_dir config peft_config =
     (let suffixe = (if peft_config \<noteq> None then ''/lora/'' else ''/dpo'')
      in join ''/'' (slice_0_m1 (split (sft_model_file config) (CHR ''/''))) @ suffixe)"

definition training_arguments :: "DpoConfig \<Rightarrow> TrainingArguments_kwargs" where
  "training_arguments config =
     \<lparr> ta_per_device_train_batch_size = per_device_train_batch_size config,
       ta_num_train_epochs = num_train_epochs config,
       ta_auto_find_batch_size = True,
       ta_remove_unused_columns = False,
       ta_gradient_accumulation_steps = gradient_accumulation_steps config,
       ta_learning_rate = learning_rate config,
       ta_logging_first_step = True,
       ta_logging_steps = logging_steps config,
       ta_save_steps = save_steps config,
       ta_output_dir = output_dir config,
       ta_optim = ''adafactor'',
       ta_report_to = ''tensorboard'',
       ta_log_level = ''info'',
       ta_warmup_steps = warmup_steps config,
       ta_bf16 = False,
       ta_fp16 = fp16 config,
       ta_seed = seed config,
       ta_logging_dir = log_dir config \<rparr>"

text \<open>
  Steps 1 and 2 of \<^verbatim>\<open>train_dpo\<close>, lines 45-62: the tokenizer, then the trainable
  model and the reference model. The values the rest of the function uses are returned.
\<close>

definition train_dpo_load :: "('w, 'e) library \<Rightarrow> DpoConfig \<Rightarrow> ('w, 'e, pyval \<times> pyval \<times> pyval) prog" where
  "train_dpo_load L config =
     seq (py_call L (PreTrainedTokenizerFast_from_pretrained (tokenizer_dir config))) (\<lambda>tokenizer.
     seq (py_isdir L (sft_model_file config)) (\<lambda>is_dir.
     if is_dir then
       seq (py_call L (TextToTextModel_from_pretrained (sft_model_file config))) (\<lambda>model_train.
       seq (py_call L (TextToTextModel_from_pretrained (sft_model_file config))) (\<lambda>model_ref.
       ret (tokenizer, model_train, model_ref)))
     else
       seq (py_call L T5ModelConfig_init) (\<lambda>t5_model_config.
       seq (py_call L (Len tokenizer)) (\<lambda>vocab_size.
       seq (py_call L (Getattr tokenizer ''pad_token_id'')) (\<lambda>pad_token_id.
       seq (py_call L (Getattr tokenizer ''eos_token_id'')) (\<lambda>eos_token_id.
       seq (py_call L (Get_T5_config t5_model_config vocab_size pad_token_id eos_token_id)) (\<lambda>t5_config.
       seq (py_call L (TextToTextModel_init t5_config)) (\<lambda>model_train.
       seq (py_call L (Torch_load (sft_model_file config) ''cpu'')) (\<lambda>state_train.
       seq (py_call L (Load_state_dict model_train state_train)) (\<lambda>_.
       seq (py_call L (TextToTextModel_init t5_config)) (\<lambda>model_ref.
       seq (py_call L (Torch_load (sft_model_file config) ''cpu'')) (\<lambda>state_ref.
       seq (py_call L (Load_state_dict model_ref state_ref)) (\<lambda>_.
       ret (tokenizer, model_train, model_ref))))))))))))))"

text \<open>The whole function: steps 1 and 2, then steps 4 to 10, lines 64-124.\<close>

definition train_dpo ::
  "('w, 'e) library \<Rightarrow> DpoConfig \<Rightarrow> LoraConfig option \<Rightarrow> ('w, 'e, pyval) prog" where
  "train_dpo L config peft_config =
     seq (train_dpo_load L config) (\<lambda>(tokenizer, model_train, model_ref).
     seq (get_dataset L ''train'' (dpo_train_file config) ''.cache'') (\<lambda>train_dataset.
     seq (py_call L (TrainingArguments_init (training_arguments config))) (\<lambda>training_args.
     seq (py_call L (DPOTrainer_init
            \<lparr> dt_model = model_train,
              dt_ref_model = model_ref,
              dt_peft_config = peft_config,
              dt_args = training_args,
              dt_beta = beta config,
              dt_train_dataset = train_dataset,
              dt_eval_dataset = PyNone,
              dt_tokenizer = tokenizer,
              dt_max_length = max_seq_len config,
              dt_max_target_length = max_seq_len config,
              dt_max_prompt_length = max_seq_len config,
              dt_generate_during_eval = True,
              dt_is_encoder_decoder = True \<rparr>)) (\<lambda>dpo_trainer.
     seq (py_call L (DPOTrainer_train dpo_trainer)) (\<lambda>_.
     seq (py_call L (Getattr dpo_trainer ''state'')) (\<lambda>trainer_state.
     seq (py_call L (Getattr trainer_state ''log_history'')) (\<lambda>log_history.
     seq (py_call L (Pd_DataFrame log_history)) (\<lambda>loss_log.
     seq (py_strftime L ''%Y%m%d-%H%M'') (\<lambda>stamp.
     seq (py_call L (DataFrame_to_csv loss_log (''./logs/dpo_train_log_'' @ stamp @ ''.csv''))) (\<lambda>_.
     seq (py_call L (DPOTrainer_save_model dpo_trainer (model_save_dir config peft_config))) (\<lambda>_.
     seq (py_call L (Print (''save model or lora adapter to: '' @ model_save_dir config peft_config))) (\<lambda>_.
     ret PyNone))))))))))))"

subsection \<open>\<^verbatim>\<open>merge_lora_weight_into_model\<close>, lines 126-169\<close>

definition adapter_save_dir :: "DpoConfig \<Rightarrow> string" where
  "adapter_save_dir config =
     join ''/'' (slice_0_m1 (split (sft_model_file config) (CHR ''/''))) @ ''/lora''"

definition save_merge_file :: "DpoConfig \<Rightarrow> string" where
  "save_merge_file config = sft_model_file config @ ''.dpo_lora_merged''"

definition merge_lora_weight_into_model ::
  "('w, 'e) library \<Rightarrow> DpoConfig \<Rightarrow> LoraConfig \<Rightarrow> ('w, 'e, pyval) prog" where
  "merge_lora_weight_into_model L config peft_config =
     seq (py_call L (PreTrainedTokenizerFast_from_pretrained (tokenizer_dir config))) (\<lambda>tokenizer.
     seq (py_isdir L (sft_model_file config)) (\<lambda>is_dir.
     seq (if is_dir then
            py_call L (TextToTextModel_from_pretrained (sft_model_file config))
          else
            seq (py_call L T5ModelConfig_init) (\<lambda>t5_model_config.
            seq (py_call L (Len tokenizer)) (\<lambda>vocab_size.
            seq (py_call L (Getattr tokenizer ''pad_token_id'')) (\<lambda>pad_token_id.
            seq (py_call L (Getattr tokenizer ''eos_token_id'')) (\<lambda>eos_token_id.
            seq (py_call L (Get_T5_config t5_model_config vocab_size pad_token_id eos_token_id)) (\<lambda>t5_config.
            seq (py_call L (TextToTextModel_init t5_config)) (\<lambda>sft_model.
            seq (py_call L (Torch_load (sft_model_file config) ''cpu'')) (\<lambda>state.
            seq (py_call L (Load_state_dict sft_model state)) (\<lambda>_.
            ret sft_model)))))))))
       (\<lambda>sft_model.
     seq (py_call L (PeftModel_from_pretrained sft_model (adapter_save_dir config) peft_config ''adapter'')) (\<lambda>peft_model.
     seq (py_call L (Print (''Load adapter from dir: '' @ adapter_save_dir config))) (\<lambda>_.
     seq (py_call L (PeftModel_load_adapter peft_model (adapter_save_dir config) ''adapter'')) (\<lambda>_.
     seq (py_call L (PeftModel_merge_and_unload peft_model)) (\<lambda>merged_model.
     seq (py_call L (Save_pretrained sft_model (save_merge_file config))) (\<lambda>_.
     seq (py_call L (Print (''Save merged model file to: '' @ save_merge_file config))) (\<lambda>_.
     ret PyNone)))))))))"

subsection \<open>The \<^verbatim>\<open>__main__\<close> block, lines 172-189\<close>

definition main_peft_config :: LoraConfig where
  "main_peft_config =
     \<lparr> task_type = SEQ_2_SEQ_LM,
       inference_mode = False,
       lora_r = 16,
       lora_alpha = 16,
       lora_dropout = 1 / 10,
       lora_bias = ''all'' \<rparr>"

text \<open>
  \<open>dpo_config\<close> is the value of \<^verbatim>\<open>DpoConfig()\<close>. The block builds the adapter
  settings, then calls \<^verbatim>\<open>train_dpo(dpo_config, peft_config=None)\<close>; the call of
  \<^verbatim>\<open>merge_lora_weight_into_model\<close> is commented out.
\<close>

definition main :: "('w, 'e) library \<Rightarrow> DpoConfig \<Rightarrow> ('w, 'e, pyval) prog" where
  "main L dpo_config =
     (let peft_config = main_peft_config
      in train_dpo L dpo_config None)"

section \<open>Notions used to state the properties\<close>

subsection \<open>Paths\<close>

text \<open>
  A path with its last segment removed: everything before the last slash, and the empty
  path when there is no slash. This follows the words of the specification; the script
  computes it by splitting at the slashes and joining all parts but the last.
\<close>

definition path_minus_last_segment :: "string \<Rightarrow> string" where
  "path_minus_last_segment p = rev (tl (dropWhile (\<lambda>c. c \<noteq> CHR ''/'') (rev p)))"

text \<open>
  What a path names when it is resolved as a directory: its non-empty segments, and
  whether it starts at the root. A trailing slash adds an empty segment only.
\<close>

definition path_segments :: "string \<Rightarrow> string list" where
  "path_segments p = filter (\<lambda>s. s \<noteq> []) (split p (CHR ''/''))"

definition is_absolute :: "string \<Rightarrow> bool" where
  "is_absolute p = (case p of [] \<Rightarrow> False | c # _ \<Rightarrow> c = CHR ''/'')"

subsection \<open>Reading a trace\<close>

fun save_model_dir_of :: "call \<Rightarrow> string list" where
  "save_model_dir_of (DPOTrainer_save_model trainer d) = [d]"
| "save_model_dir_of _ = []"

text \<open>The directories handed to \<^verbatim>\<open>save_model\<close> during a run, in order.\<close>

definition save_model_dirs :: "'e event list \<Rightarrow> string list" where
  "save_model_dirs t = concat (map (\<lambda>ev. save_model_dir_of (fst ev)) t)"

fun adapter_dir_of :: "call \<Rightarrow> string list" where
  "adapter_dir_of (PeftModel_from_pretrained m d c n) = [d]"
| "adapter_dir_of (PeftModel_load_adapter pm d n) = [d]"
| "adapter_dir_of _ = []"

text \<open>The directories an adapter is loaded from during a run, in order.\<close>

definition adapter_dirs :: "'e event list \<Rightarrow> string list" where
  "adapter_dirs t = concat (map (\<lambda>ev. adapter_dir_of (fst ev)) t)"

fun save_pretrained_path_of :: "call \<Rightarrow> string list" where
  "save_pretrained_path_of (Save_pretrained m p) = [p]"
| "save_pretrained_path_of _ = []"

text \<open>The paths handed to \<^verbatim>\<open>save_pretrained\<close> during a run, in order.\<close>

definition save_pretrained_paths :: "'e event list \<Rightarrow> string list" where
  "save_pretrained_paths t = concat (map (\<lambda>ev. save_pretrained_path_of (fst ev)) t)"

fun peft_config_of :: "call \<Rightarrow> LoraConfig option list" where
  "peft_config_of (DPOTrainer_init kw) = [dt_peft_config kw]"
| "peft_config_of _ = []"

text \<open>The adapter configurations the trainer is built with during a run, in order.\<close>

definition trainer_peft_configs :: "'e event list \<Rightarrow> LoraConfig option list" where
  "trainer_peft_configs t = concat (map (\<lambda>ev. peft_config_of (fst ev)) t)"

subsection \<open>Exceptions\<close>

definition raised :: "'e event \<Rightarrow> bool" where
  "raised ev = (case snd ev of Inl _ \<Rightarrow> True | Inr _ \<Rightarrow> False)"

text \<open>
  A run with result \<open>r\<close> and trace \<open>t\<close> hands exceptions on untouched: when it returns,
  no call has raised; when it ends in an exception, that exception is the one the last
  call raised, and no call before it has raised.
\<close>

definition propagated :: "'e + 'a \<Rightarrow> 'e event list \<Rightarrow> bool" where
  "propagated r t =
     (case r of
        Inr _ \<Rightarrow> \<forall>ev \<in> set t. \<not> raised ev
      | Inl e \<Rightarrow> t \<noteq> [] \<and> snd (last t) = Inl e \<and> (\<forall>ev \<in> set (butlast t). \<not> raised ev))"

definition propagates :: "('w, 'e, 'a) prog \<Rightarrow> bool" where
  "propagates m = (\<forall>w r t w'. m w = (r, t, w') \<longrightarrow> propagated r t)"

definition calls_sat :: "(call \<Rightarrow> bool) \<Rightarrow> ('w, 'e, 'a) prog \<Rightarrow> bool" where
  "calls_sat P m = (\<forall>w r t w'. m w = (r, t, w') \<longrightarrow> (\<forall>ev \<in> set t. P (fst ev)))"

subsection \<open>What is assumed of the libraries\<close>

text \<open>
  \<^verbatim>\<open>Dataset.map\<close> applies the callback to every row, in order;
  \<^verbatim>\<open>Dataset.shuffle\<close> returns the rows in some other order.
\<close>

definition dataset_contract :: "('w, 'e) library \<Rightarrow> bool" where
  "dataset_contract L \<longleftrightarrow>
     (\<forall>f ds w out w'. dataset_map L f ds w = (Inr out, w') \<longrightarrow> out = map f ds) \<and>
     (\<forall>sd ds w out w'. dataset_shuffle L sd ds w = (Inr out, w') \<longrightarrow> mset out = mset ds)"

text \<open>
  The dataset calls are functions of their arguments and of what the file holds
  (\<open>content\<close>), and of nothing else in the world; for \<^verbatim>\<open>shuffle\<close> this is
  assumed only when a seed is given.
\<close>

definition dataset_deterministic :: "('w, 'e) library \<Rightarrow> ('w \<Rightarrow> string \<Rightarrow> 'c) \<Rightarrow> bool" where
  "dataset_deterministic L content \<longleftrightarrow>
     (\<forall>fmt file sp cd w1 w2. content w1 file = content w2 file \<longrightarrow>
        fst (load_dataset L fmt file sp cd w1) = fst (load_dataset L fmt file sp cd w2)) \<and>
     (\<forall>f ds w1 w2. fst (dataset_map L f ds w1) = fst (dataset_map L f ds w2)) \<and>
     (\<forall>s ds w1 w2. fst (dataset_shuffle L (Some s) ds w1) = fst (dataset_shuffle L (Some s) ds w2))"

text \<open>
  Loading a model. \<open>weights w x\<close> is what the object \<open>x\<close> holds in the world \<open>w\<close>
  (\<open>None\<close> when there is no such object), \<open>disk w p\<close> what is stored under the path
  \<open>p\<close>. \<^verbatim>\<open>from_pretrained\<close> and \<^verbatim>\<open>torch.load\<close> return a new object holding
  what is stored; the constructor returns a new object; \<^verbatim>\<open>load_state_dict\<close> copies
  the state into the model; none of them writes to the disk or touches another object.
\<close>

definition loading_contract ::
  "('w, 'e) library \<Rightarrow> ('w \<Rightarrow> pyval \<Rightarrow> 'b option) \<Rightarrow> ('w \<Rightarrow> string \<Rightarrow> 'b option) \<Rightarrow> bool" where
  "loading_contract L weights disk \<longleftrightarrow>
     (\<forall>p w m w'. lib_call L (TextToTextModel_from_pretrained p) w = (Inr m, w') \<longrightarrow>
        weights w m = None \<and> disk w p \<noteq> None \<and>
        weights w' = (weights w)(m := disk w p) \<and> disk w' = disk w) \<and>
     (\<forall>c w m w'. lib_call L (TextToTextModel_init c) w = (Inr m, w') \<longrightarrow>
        weights w m = None \<and> (\<forall>x. x \<noteq> m \<longrightarrow> weights w' x = weights w x) \<and> disk w' = disk w) \<and>
     (\<forall>p d w s w'. lib_call L (Torch_load p d) w = (Inr s, w') \<longrightarrow>
        weights w s = None \<and> disk w p \<noteq> None \<and>
        weights w' = (weights w)(s := disk w p) \<and> disk w' = disk w) \<and>
     (\<forall>m s w x w'. lib_call L (Load_state_dict m s) w = (Inr x, w') \<longrightarrow>
        weights w' = (weights w)(m := weights w s) \<and> disk w' = disk w)"

text \<open>
  Merging an adapter. \<open>wrapped w x\<close> is the base model the adapter model \<open>x\<close> wraps.
  \<^verbatim>\<open>PeftModel.from_pretrained\<close> wraps the model it is given;
  \<^verbatim>\<open>merge_and_unload\<close> merges in place, returning the wrapped base model itself;
  \<^verbatim>\<open>save_pretrained\<close> stores what the object holds.
\<close>

definition peft_contract ::
  "('w, 'e) library \<Rightarrow> ('w \<Rightarrow> pyval \<Rightarrow> 'b option) \<Rightarrow> ('w \<Rightarrow> pyval \<Rightarrow> pyval option) \<Rightarrow>
   ('w \<Rightarrow> string \<Rightarrow> 'b option) \<Rightarrow> bool" where
  "peft_contract L weights wrapped disk \<longleftrightarrow>
     (\<forall>m d c n w pm w'. lib_call L (PeftModel_from_pretrained m d c n) w = (Inr pm, w') \<longrightarrow>
        wrapped w' pm = Some m) \<and>
     (\<forall>s w x w'. lib_call L (Print s) w = (Inr x, w') \<longrightarrow>
        wrapped w' = wrapped w \<and> weights w' = weights w \<and> disk w' = disk w) \<and>
     (\<forall>pm d n w x w'. lib_call L (PeftModel_load_adapter pm d n) w = (Inr x, w') \<longrightarrow>
        wrapped w' = wrapped w) \<and>
     (\<forall>pm w r w'. lib_call L (PeftModel_merge_and_unload pm) w = (Inr r, w') \<longrightarrow>
        wrapped w pm = Some r) \<and>
     (\<forall>m p w x w'. lib_call L (Save_pretrained m p) w = (Inr x, w') \<longrightarrow>
        weights w' = weights w \<and> disk w' p = weights w m)"

section \<open>A small library and world to run the script in\<close>

text \<open>
  Objects are numbered in the order they are made and hold a number as their weights;
  the disk maps a path to the number stored there.
\<close>

record toy_world =
  tw_objs :: "nat list"
  tw_wraps :: "(nat \<times> pyval) list"
  tw_files :: "(string \<times> nat) list"
  tw_dirs :: "string list"
  tw_data :: "(string \<times> sample list) list"
  tw_clock :: string

definition toy_weights :: "toy_world \<Rightarrow> pyval \<Rightarrow> nat option" where
  "toy_weights w x =
     (case x of PyObj i \<Rightarrow> (if i < length (tw_objs w) then Some (tw_objs w ! i) else None)
      | _ \<Rightarrow> None)"

definition toy_disk :: "toy_world \<Rightarrow> string \<Rightarrow> nat option" where
  "toy_disk w p = map_of (tw_files w) p"

definition toy_wrapped :: "toy_world \<Rightarrow> pyval \<Rightarrow> pyval option" where
  "toy_wrapped w x = (case x of PyObj i \<Rightarrow> map_of (tw_wraps w) i | _ \<Rightarrow> None)"

definition toy_content :: "toy_world \<Rightarrow> string \<Rightarrow> sample list option" where
  "toy_content w file = map_of (tw_data w) file"

definition toy_alloc :: "nat \<Rightarrow> toy_world \<Rightarrow> (string + pyval) \<times> toy_world" where
  "toy_alloc b w = (Inr (PyObj (length (tw_objs w))), w\<lparr>tw_objs := tw_objs w @ [b]\<rparr>)"

definition toy_load :: "string \<Rightarrow> string \<Rightarrow> toy_world \<Rightarrow> (string + pyval) \<times> toy_world" where
  "toy_load err p w = (case map_of (tw_files w) p of None \<Rightarrow> (Inl err, w) | Some b \<Rightarrow> toy_alloc b w)"

fun toy_lib_call :: "call \<Rightarrow> toy_world \<Rightarrow> (string + pyval) \<times> toy_world" where
  "toy_lib_call (PreTrainedTokenizerFast_from_pretrained p) w = toy_alloc 0 w"
| "toy_lib_call (TextToTextModel_from_pretrained p) w = toy_load ''OSError'' p w"
| "toy_lib_call (TextToTextModel_init c) w = toy_alloc 0 w"
| "toy_lib_call (Torch_load p d) w = toy_load ''FileNotFoundError'' p w"
| "toy_lib_call (Load_state_dict m s) w =
     (case (m, toy_weights w m, toy_weights w s) of
        (PyObj i, Some _, Some b) \<Rightarrow> (Inr PyNone, w\<lparr>tw_objs := (tw_objs w)[i := b]\<rparr>)
      | _ \<Rightarrow> (Inl ''RuntimeError'', w))"
| "toy_lib_call (Len x) w = (Inr (PyInt 0), w)"
| "toy_lib_call (DPOTrainer_init kw) w = toy_alloc 0 w"
| "toy_lib_call (DPOTrainer_save_model trainer d) w = (Inr PyNone, w\<lparr>tw_files := (d, 1) # tw_files w\<rparr>)"
| "toy_lib_call (PeftModel_from_pretrained m d c n) w =
     (case map_of (tw_files w) d of
        None \<Rightarrow> (Inl ''ValueError'', w)
      | Some a \<Rightarrow> (Inr (PyObj (length (tw_objs w))),
                   w\<lparr>tw_objs := tw_objs w @ [a], tw_wraps := (length (tw_objs w), m) # tw_wraps w\<rparr>))"
| "toy_lib_call (PeftModel_merge_and_unload pm) w =
     (case (pm, toy_wrapped w pm) of
        (PyObj k, Some (PyObj b)) \<Rightarrow>
          (if b < length (tw_objs w) \<and> k < length (tw_objs w)
           then (Inr (PyObj b), w\<lparr>tw_objs := (tw_objs w)[b := tw_objs w ! b + tw_objs w ! k]\<rparr>)
           else (Inl ''RuntimeError'', w))
      | _ \<Rightarrow> (Inl ''AttributeError'', w))"
| "toy_lib_call (Save_pretrained m p) w =
     (case toy_weights w m of
        None \<Rightarrow> (Inl ''AttributeError'', w)
      | Some b \<Rightarrow> (Inr PyNone, w\<lparr>tw_files := (p, b) # tw_files w\<rparr>))"
| "toy_lib_call _ w = (Inr PyNone, w)"

definition toy_library :: "(toy_world, string) library" where
  "toy_library =
     \<lparr> load_dataset = (\<lambda>fmt file sp cd w.
         case map_of (tw_data w) file of
           None \<Rightarrow> (Inl ''FileNotFoundError'', w)
         | Some rows \<Rightarrow> (Inr rows, w)),
       dataset_map = (\<lambda>f ds w. (Inr (map f ds), w)),
       dataset_shuffle = (\<lambda>sd ds w.
         case sd of
           Some s \<Rightarrow> (Inr (rev ds), w)
         | None \<Rightarrow> (Inr (if even (length (tw_clock w)) then ds else rev ds), w)),
       os_path_isdir = (\<lambda>p w. (Inr (p \<in> set (tw_dirs w)), w)),
       time_strftime = (\<lambda>fmt w. (Inr (tw_clock w), w)),
       lib_call = toy_lib_call \<rparr>"

definition toy_rows :: "sample list" where
  "toy_rows =
     [\<lparr> prompt = ''p1'', chosen = ''c1'', rejected = ''r1'' \<rparr>,
      \<lparr> prompt = ''p2'', chosen = ''c2'', rejected = ''r2'' \<rparr>]"

definition toy_start :: toy_world where
  "toy_start =
     \<lparr> tw_objs = [],
       tw_wraps = [],
       tw_files = [(''m/sft'', 7), (''m/sft.bin'', 7), (''m/lora'', 5), (''q/sft.bin'', 9)],
       tw_dirs = [''m/sft''],
       tw_data = [(''d.json'', toy_rows)],
       tw_clock = ''20240101-0000'' \<rparr>"

text \<open>The same files at a later time.\<close>

definition toy_later :: toy_world where
  "toy_later = toy_start \<lparr> tw_objs := [3], tw_clock := ''20240102-1200x'' \<rparr>"

definition toy_config :: "string \<Rightarrow> DpoConfig" where
  "toy_config model_file =
     \<lparr> tokenizer_dir = ''m/tok'',
       sft_model_file = model_file,
       dpo_train_file = ''d.json'',
       per_device_train_batch_size = 4,
       num_train_epochs = 4,
       gradient_accumulation_steps = 8,
       learning_rate = 1 / 100000,
       logging_steps = 20,
       save_steps = 2000,
       output_dir = ''m/out'',
       warmup_steps = 1000,
       fp16 = True,
       seed = 23333,
       log_dir = ''logs'',
       beta = 1 / 10,
       max_seq_len = 520 \<rparr>"

section \<open>Evaluation of the small library\<close>

lemmas prog_defs =
  seq_def ret_def invoke_def py_call_def py_isdir_def py_strftime_def
  py_load_dataset_def py_dataset_map_def py_dataset_shuffle_def

lemmas toy_defs =
  toy_library_def toy_start_def toy_later_def toy_config_def toy_alloc_def toy_load_def
  toy_weights_def toy_wrapped_def toy_disk_def toy_content_def toy_rows_def

section \<open>Splitting and joining paths\<close>

lemma split_nonempty: "split xs c \<noteq> []"
  by (induction xs) auto

lemma split_append: "split (a @ c # b) c = split a c @ split b c"
  by (induction a) (auto simp: split_nonempty)

lemma split_no_sep: "c \<notin> set b \<Longrightarrow> split b c = [b]"
  by (induction b) auto

lemma join_Cons: "ss \<noteq> [] \<Longrightarrow> join sep (s # ss) = s @ sep @ join sep ss"
  by (cases ss) auto

lemma join_split: "join [c] (split a c) = a"
proof (induction a)
  case Nil show ?case by simp
next
  case (Cons x xs)
  obtain s ss where S: "split xs c = s # ss" using split_nonempty[of xs c] by (cases "split xs c") auto
  show ?case using Cons S by (cases ss) (auto simp: join_Cons split_nonempty)
qed

lemma dir_of_path:
  "join ''/'' (slice_0_m1 (split p (CHR ''/''))) = path_minus_last_segment p"
proof (cases "CHR ''/'' \<in> set p")
  case False
  then have D: "dropWhile (\<lambda>c. c \<noteq> CHR ''/'') (rev p) = []" by auto
  show ?thesis unfolding path_minus_last_segment_def D
    using False by (simp add: split_no_sep slice_0_m1_def)
next
  case True
  then obtain a b where p: "p = a @ CHR ''/'' # b" and b: "CHR ''/'' \<notin> set b"
    using split_list_last[of "CHR ''/''" p] by auto
  have "dropWhile (\<lambda>c. c \<noteq> CHR ''/'') (rev p) = CHR ''/'' # rev a"
    using b by (auto simp: p dropWhile_append3)
  then have R: "path_minus_last_segment p = a" by (simp add: path_minus_last_segment_def)
  have "split p (CHR ''/'') = split a (CHR ''/'') @ [b]" using b by (simp add: p split_append split_no_sep)
  then have "slice_0_m1 (split p (CHR ''/'')) = split a (CHR ''/'')" by (simp add: slice_0_m1_def)
  then show ?thesis using R join_split[of "CHR ''/''" a] by simp
qed


section \<open>Runs of sequenced calls\<close>

lemma seqE:
  assumes "seq m f w = (r, t, w')"
  obtains (raised) e where "m w = (Inl e, t, w')" "r = Inl e"
        | (returned) a t1 w1 t2 where "m w = (Inr a, t1, w1)" "f a w1 = (r, t2, w')" "t = t1 @ t2"
  using assms by (auto simp: seq_def split: prod.splits sum.splits)

lemma seq_InrE:
  assumes "seq m f w = (Inr b, t, w')"
  obtains a t1 w1 t2 where "m w = (Inr a, t1, w1)" "f a w1 = (Inr b, t2, w')" "t = t1 @ t2"
  using assms by (auto simp: seq_def split: prod.splits sum.splits)

lemma invokeE:
  assumes "invoke c as_py f w = (r, t, w')"
  obtains "f w = (r, w')" "t = [(c, map_sum id as_py r)]"
  using assms by (auto simp: invoke_def split: prod.splits)

lemma py_callE:
  assumes "py_call L c w = (r, t, w')"
  obtains "lib_call L c w = (r, w')" "t = [(c, r)]"
  using assms by (auto simp: py_call_def invoke_def sum.map_id split: prod.splits)

lemma retE:
  assumes "ret a w = (r, t, w')"
  obtains "r = Inr a" "t = []" "w' = w"
  using assms by (auto simp: ret_def)

subsection \<open>Exceptions end the run\<close>

lemma propagates_ret: "propagates (ret a)"
  by (auto simp: propagates_def ret_def propagated_def)

lemma propagates_invoke: "propagates (invoke c as_py f)"
  by (auto simp: propagates_def invoke_def propagated_def raised_def split: prod.splits sum.splits)

lemma propagates_seq:
  assumes "propagates m" "\<And>a. propagates (f a)"
  shows "propagates (seq m f)"
  unfolding propagates_def
proof (intro allI impI)
  fix w r t w' assume "seq m f w = (r, t, w')"
  then show "propagated r t"
  proof (cases rule: seqE)
    case (raised e)
    then have "propagated (Inl e :: 'b + 'c) t" using assms(1) by (auto simp: propagates_def)
    then show ?thesis using raised by (simp add: propagated_def)
  next
    case (returned a t1 w1 t2)
    have 1: "propagated (Inr a :: 'b + 'c) t1"
      using assms(1) returned(1) unfolding propagates_def by blast
    have 2: "propagated r t2"
      using assms(2)[of a] returned(2) unfolding propagates_def by blast
    show ?thesis
    proof (cases r)
      case (Inr b)
      then show ?thesis using 1 2 returned by (auto simp: propagated_def)
    next
      case (Inl e)
      then show ?thesis using 1 2 returned by (auto simp: propagated_def butlast_append)
    qed
  qed
qed

lemma propagates_if: "propagates a \<Longrightarrow> propagates b \<Longrightarrow> propagates (if c then a else b)"
  by simp

lemmas propagates_intros = propagates_seq propagates_ret propagates_invoke propagates_if

lemma propagates_get_dataset: "propagates (get_dataset L s f c)"
  unfolding get_dataset_def py_load_dataset_def py_dataset_map_def py_dataset_shuffle_def
  by (intro propagates_intros)

lemma propagates_train_dpo_load: "propagates (train_dpo_load L config)"
  unfolding train_dpo_load_def py_call_def py_isdir_def
  by (intro propagates_intros)

lemma propagates_train_dpo: "propagates (train_dpo L config peft)"
  unfolding train_dpo_def py_call_def py_strftime_def
  by (intro propagates_intros propagates_get_dataset propagates_train_dpo_load) (simp add: split_def, intro propagates_intros propagates_get_dataset)

lemma propagates_merge: "propagates (merge_lora_weight_into_model L config peft)"
  unfolding merge_lora_weight_into_model_def py_call_def py_isdir_def
  by (intro propagates_intros)


section \<open>The save directory and the adapter directory\<close>

lemma split_trailing_sep: "split (p @ [c]) c = split p c @ [[]]"
  using split_append[of p c "[]"] by simp

text \<open>
  C9. The directory \<^verbatim>\<open>train_dpo\<close> saves an adapter to is the directory
  \<^verbatim>\<open>merge_lora_weight_into_model\<close> loads it from followed by one slash; both have
  the same non-empty segments and both or neither start at the root, so they name the
  same directory.
\<close>

theorem save_dir_is_adapter_dir_with_slash:
  "model_save_dir config (Some peft_config) = adapter_save_dir config @ ''/'' \<and>
   path_segments (model_save_dir config (Some peft_config)) = path_segments (adapter_save_dir config) \<and>
   is_absolute (model_save_dir config (Some peft_config)) = is_absolute (adapter_save_dir config)"
proof -
  have E: "model_save_dir config (Some peft_config) = adapter_save_dir config @ ''/''"
    by (simp add: model_save_dir_def adapter_save_dir_def)
  have S: "path_segments (adapter_save_dir config @ ''/'') = path_segments (adapter_save_dir config)"
    unfolding path_segments_def using split_trailing_sep[of "adapter_save_dir config" "CHR ''/''"]
    by simp
  have "adapter_save_dir config \<noteq> []" by (simp add: adapter_save_dir_def)
  then have A: "is_absolute (adapter_save_dir config @ ''/'') = is_absolute (adapter_save_dir config)"
    by (cases "adapter_save_dir config") (simp_all add: is_absolute_def)
  show ?thesis using E S A by simp
qed

section \<open>The dataset loader\<close>

text \<open>
  C1. When \<^verbatim>\<open>get_dataset\<close> returns, the samples it returns are, up to their order,
  the rows read from the file with \<^verbatim>\<open>[EOS]\<close> appended to each of the three fields.
\<close>

theorem get_dataset_appends_eos:
  assumes "dataset_contract L"
    and "get_dataset L split_name file cache_dir w = (Inr out, t, w')"
  shows "\<exists>rows. (Load_dataset ''json'' file split_name cache_dir, Inr (PyRows rows)) \<in> set t \<and>
           mset out = image_mset split_prompt_and_responses (mset rows) \<and>
           (\<forall>s \<in> set out. \<exists>r \<in> set rows.
              prompt s = prompt r @ ''[EOS]'' \<and> chosen s = chosen r @ ''[EOS]'' \<and>
              rejected s = rejected r @ ''[EOS]'')"
proof -
  from assms(2) obtain rows mapped w1 w2 where
    load: "load_dataset L ''json'' file split_name cache_dir w = (Inr rows, w1)" and
    mp: "dataset_map L split_prompt_and_responses rows w1 = (Inr mapped, w2)" and
    sh: "dataset_shuffle L (Some 2333) mapped w2 = (Inr out, w')" and
    t: "t = [(Load_dataset ''json'' file split_name cache_dir, Inr (PyRows rows)),
             (Dataset_map rows, Inr (PyRows mapped)),
             (Dataset_shuffle (Some 2333) mapped, Inr (PyRows out))]"
    unfolding get_dataset_def py_load_dataset_def py_dataset_map_def py_dataset_shuffle_def
    by (elim seq_InrE invokeE) auto
  from assms(1) mp have m: "mapped = map split_prompt_and_responses rows"
    unfolding dataset_contract_def by blast
  from assms(1) sh have "mset out = mset mapped"
    unfolding dataset_contract_def by blast
  with m have ms: "mset out = image_mset split_prompt_and_responses (mset rows)" by simp
  then have "set out = split_prompt_and_responses ` set rows"
    by (metis set_image_mset set_mset_mset)
  then have "\<forall>s \<in> set out. \<exists>r \<in> set rows.
      prompt s = prompt r @ ''[EOS]'' \<and> chosen s = chosen r @ ''[EOS]'' \<and>
      rejected s = rejected r @ ''[EOS]''"
    by (auto simp: split_prompt_and_responses_def)
  with ms t show ?thesis by auto
qed

lemma toy_dataset_contract: "dataset_contract toy_library"
  by (auto simp: dataset_contract_def toy_library_def split: option.splits)

theorem get_dataset_appends_eos_witness:
  "dataset_contract toy_library \<and>
   fst (get_dataset toy_library ''train'' ''d.json'' ''.cache'' toy_start) =
     Inr [\<lparr> prompt = ''p2[EOS]'', chosen = ''c2[EOS]'', rejected = ''r2[EOS]'' \<rparr>,
          \<lparr> prompt = ''p1[EOS]'', chosen = ''c1[EOS]'', rejected = ''r1[EOS]'' \<rparr>] \<and>
   (\<exists>rows. mset [\<lparr> prompt = ''p2[EOS]'', chosen = ''c2[EOS]'', rejected = ''r2[EOS]'' \<rparr>,
                 \<lparr> prompt = ''p1[EOS]'', chosen = ''c1[EOS]'', rejected = ''r1[EOS]'' \<rparr>]
            = image_mset split_prompt_and_responses (mset rows))"
proof -
  obtain t w' where run: "get_dataset toy_library ''train'' ''d.json'' ''.cache'' toy_start =
      (Inr [\<lparr> prompt = ''p2[EOS]'', chosen = ''c2[EOS]'', rejected = ''r2[EOS]'' \<rparr>,
            \<lparr> prompt = ''p1[EOS]'', chosen = ''c1[EOS]'', rejected = ''r1[EOS]'' \<rparr>], t, w')"
    by (simp add: get_dataset_def prog_defs toy_defs split_prompt_and_responses_def)
  from get_dataset_appends_eos[OF toy_dataset_contract run] toy_dataset_contract run
  show ?thesis by auto
qed

lemma fst_invoke: "fst (invoke c as_py f w) = fst (f w)"
  by (simp add: invoke_def split: prod.splits)

lemma snd_invoke: "snd (snd (invoke c as_py f w)) = snd (f w)"
  by (simp add: invoke_def split: prod.splits)

lemma fst_seq:
  "fst (seq m f w) = (case fst (m w) of Inl e \<Rightarrow> Inl e | Inr a \<Rightarrow> fst (f a (snd (snd (m w)))))"
  by (simp add: seq_def split: prod.splits sum.splits)

lemma fst_get_dataset:
  "fst (get_dataset L split_name file cache_dir w) =
     (case fst (load_dataset L ''json'' file split_name cache_dir w) of
        Inl e \<Rightarrow> Inl e
      | Inr rows \<Rightarrow>
          (case fst (dataset_map L split_prompt_and_responses rows
                      (snd (load_dataset L ''json'' file split_name cache_dir w))) of
             Inl e \<Rightarrow> Inl e
           | Inr mapped \<Rightarrow>
               fst (dataset_shuffle L (Some 2333) mapped
                     (snd (dataset_map L split_prompt_and_responses rows
                            (snd (load_dataset L ''json'' file split_name cache_dir w)))))))"
  unfolding get_dataset_def py_load_dataset_def py_dataset_map_def py_dataset_shuffle_def
  by (simp add: fst_seq fst_invoke snd_invoke cong: sum.case_cong)

text \<open>
  C6. Two runs of \<^verbatim>\<open>get_dataset\<close> on a file that holds the same content give the
  same result, the same samples in the same order, whatever else differs between the two
  worlds; the seed handed to \<^verbatim>\<open>shuffle\<close> is the constant 2333.
\<close>

theorem get_dataset_deterministic:
  assumes "dataset_deterministic L content"
    and "content w1 file = content w2 file"
  shows "fst (get_dataset L split_name file cache_dir w1) = fst (get_dataset L split_name file cache_dir w2)"
proof -
  let ?l1 = "load_dataset L ''json'' file split_name cache_dir w1"
  let ?l2 = "load_dataset L ''json'' file split_name cache_dir w2"
  have 1: "fst ?l1 = fst ?l2"
    using assms unfolding dataset_deterministic_def by blast
  have 2: "\<And>ds. fst (dataset_map L split_prompt_and_responses ds (snd ?l1)) =
                 fst (dataset_map L split_prompt_and_responses ds (snd ?l2))"
    using assms(1) unfolding dataset_deterministic_def by blast
  have 3: "\<And>ds u v. fst (dataset_shuffle L (Some 2333) ds u) = fst (dataset_shuffle L (Some 2333) ds v)"
    using assms(1) unfolding dataset_deterministic_def by blast
  show ?thesis
  proof (cases "fst ?l2")
    case (Inl e)
    then show ?thesis using 1 by (simp add: fst_get_dataset)
  next
    case rows: (Inr rows)
    show ?thesis
    proof (cases "fst (dataset_map L split_prompt_and_responses rows (snd ?l2))")
      case (Inl e)
      then show ?thesis using 1 2[of rows] rows by (simp add: fst_get_dataset)
    next
      case (Inr mapped)
      have a1: "fst (get_dataset L split_name file cache_dir w1) =
          fst (dataset_shuffle L (Some 2333) mapped
                (snd (dataset_map L split_prompt_and_responses rows (snd ?l1))))"
        using 1 2[of rows] rows Inr by (simp add: fst_get_dataset)
      have a2: "fst (get_dataset L split_name file cache_dir w2) =
          fst (dataset_shuffle L (Some 2333) mapped
                (snd (dataset_map L split_prompt_and_responses rows (snd ?l2))))"
        using rows Inr by (simp add: fst_get_dataset)
      show ?thesis unfolding a1 a2 by (rule 3)
    qed
  qed
qed

lemma toy_dataset_deterministic: "dataset_deterministic toy_library toy_content"
  by (auto simp: dataset_deterministic_def toy_library_def toy_content_def split: option.splits)

theorem get_dataset_deterministic_witness:
  "dataset_deterministic toy_library toy_content \<and>
   toy_content toy_start ''d.json'' = toy_content toy_later ''d.json'' \<and>
   toy_start \<noteq> toy_later \<and>
   fst (get_dataset toy_library ''train'' ''d.json'' ''.cache'' toy_start) =
   fst (get_dataset toy_library ''train'' ''d.json'' ''.cache'' toy_later)"
proof -
  have c: "toy_content toy_start ''d.json'' = toy_content toy_later ''d.json''"
    by (simp add: toy_defs)
  have d: "toy_start \<noteq> toy_later"
    by (simp add: toy_defs)
  have "fst (get_dataset toy_library ''train'' ''d.json'' ''.cache'' toy_start) =
        fst (get_dataset toy_library ''train'' ''d.json'' ''.cache'' toy_later)"
    using toy_dataset_deterministic c
    by (rule get_dataset_deterministic[where L = toy_library and content = toy_content])
  with toy_dataset_deterministic c d show ?thesis by blast
qed

section \<open>Exceptions of library calls\<close>

text \<open>
  C8. In a run of \<^verbatim>\<open>get_dataset\<close>, \<^verbatim>\<open>train_dpo\<close> or
  \<^verbatim>\<open>merge_lora_weight_into_model\<close>, the first library call that raises is the last
  call made, and the run ends in the very exception it raised; a run that returns has
  seen no exception.
\<close>

theorem library_errors_propagate:
  "propagates (get_dataset L split_name file cache_dir) \<and>
   propagates (train_dpo L config peft_config) \<and>
   propagates (merge_lora_weight_into_model L config lora_config)"
  by (intro conjI propagates_get_dataset propagates_train_dpo propagates_merge)

theorem library_errors_propagate_witness:
  "(\<exists>t w'. get_dataset toy_library ''train'' ''missing.json'' ''.cache'' toy_start =
        (Inl ''FileNotFoundError'', t, w') \<and>
      propagated (Inl ''FileNotFoundError'' :: string + sample list) t) \<and>
   (\<exists>t w'. train_dpo toy_library (toy_config ''m/missing'') None toy_start =
        (Inl ''FileNotFoundError'', t, w') \<and>
      propagated (Inl ''FileNotFoundError'' :: string + pyval) t) \<and>
   (\<exists>t w'. merge_lora_weight_into_model toy_library (toy_config ''q/sft.bin'') main_peft_config toy_start =
        (Inl ''ValueError'', t, w') \<and>
      propagated (Inl ''ValueError'' :: string + pyval) t)"
proof -
  obtain t1 u1 where r1: "get_dataset toy_library ''train'' ''missing.json'' ''.cache'' toy_start =
      (Inl ''FileNotFoundError'', t1, u1)"
    by (simp add: get_dataset_def prog_defs toy_defs)
  obtain t2 u2 where r2: "train_dpo toy_library (toy_config ''m/missing'') None toy_start =
      (Inl ''FileNotFoundError'', t2, u2)"
    by (simp add: train_dpo_def train_dpo_load_def get_dataset_def prog_defs toy_defs)
  obtain t3 u3 where r3: "merge_lora_weight_into_model toy_library (toy_config ''q/sft.bin'') main_peft_config toy_start =
      (Inl ''ValueError'', t3, u3)"
    by (simp add: merge_lora_weight_into_model_def adapter_save_dir_def slice_0_m1_def prog_defs toy_defs)
  note p = library_errors_propagate[of toy_library "''train''" "''missing.json''" "''.cache''"
      "toy_config ''m/missing''" None main_peft_config]
  note q = library_errors_propagate[of toy_library "''train''" "''missing.json''" "''.cache''"
      "toy_config ''q/sft.bin''" None main_peft_config]
  from p r1 have "propagated (Inl ''FileNotFoundError'' :: string + sample list) t1"
    unfolding propagates_def by blast
  moreover from p r2 have "propagated (Inl ''FileNotFoundError'' :: string + pyval) t2"
    unfolding propagates_def by blast
  moreover from q r3 have "propagated (Inl ''ValueError'' :: string + pyval) t3"
    unfolding propagates_def by blast
  ultimately show ?thesis using r1 r2 r3 by blast
qed

section \<open>Calls made during a run\<close>

lemma calls_sat_ret: "calls_sat P (ret a)"
  by (auto simp: calls_sat_def ret_def)

lemma calls_sat_invoke: "P c \<Longrightarrow> calls_sat P (invoke c as_py f)"
  by (auto simp: calls_sat_def invoke_def split: prod.splits)

lemma calls_sat_seq:
  assumes "calls_sat P m" "\<And>a. calls_sat P (f a)"
  shows "calls_sat P (seq m f)"
  unfolding calls_sat_def
proof (intro allI impI)
  fix w r t w' assume "seq m f w = (r, t, w')"
  then show "\<forall>ev \<in> set t. P (fst ev)"
  proof (cases rule: seqE)
    case (raised e)
    then show ?thesis using assms(1) unfolding calls_sat_def by blast
  next
    case (returned a t1 w1 t2)
    have "\<forall>ev \<in> set t1. P (fst ev)"
      using assms(1) returned(1) unfolding calls_sat_def by blast
    moreover have "\<forall>ev \<in> set t2. P (fst ev)"
      using assms(2)[of a] returned(2) unfolding calls_sat_def by blast
    ultimately show ?thesis using returned(3) by auto
  qed
qed

lemma calls_sat_if: "calls_sat P a \<Longrightarrow> calls_sat P b \<Longrightarrow> calls_sat P (if c then a else b)"
  by simp

lemma calls_satD: "calls_sat P m \<Longrightarrow> m w = (r, t, w') \<Longrightarrow> \<forall>ev \<in> set t. P (fst ev)"
  unfolding calls_sat_def by blast

lemma calls_sat_get_dataset:
  assumes "\<And>a b c d. P (Load_dataset a b c d)" "\<And>ds. P (Dataset_map ds)" "\<And>s ds. P (Dataset_shuffle s ds)"
  shows "calls_sat P (get_dataset L s f c)"
  unfolding get_dataset_def py_load_dataset_def py_dataset_map_def py_dataset_shuffle_def
  by (intro calls_sat_seq calls_sat_invoke assms)

lemmas calls_sat_intros = calls_sat_seq calls_sat_ret calls_sat_if calls_sat_get_dataset calls_sat_invoke

lemma concat_map_subset:
  "\<forall>ev \<in> set t. set (f (fst ev)) \<subseteq> S \<Longrightarrow> set (concat (map (\<lambda>ev. f (fst ev)) t)) \<subseteq> S"
  by auto

lemma concat_map_empty:
  "\<forall>ev \<in> set t. f (fst ev) = [] \<Longrightarrow> concat (map (\<lambda>ev. f (fst ev)) t) = []"
  by (induction t) auto

lemma model_save_dir_eq:
  "model_save_dir config peft_config =
     path_minus_last_segment (sft_model_file config) @ (if peft_config = None then ''/dpo'' else ''/lora/'')"
  by (simp add: model_save_dir_def dir_of_path)

lemma adapter_save_dir_eq:
  "adapter_save_dir config = path_minus_last_segment (sft_model_file config) @ ''/lora''"
  by (simp add: adapter_save_dir_def dir_of_path)

section \<open>Where \<^verbatim>\<open>train_dpo\<close> saves\<close>

lemma train_dpo_load_calls:
  assumes "\<And>p. P (PreTrainedTokenizerFast_from_pretrained p)" "\<And>p. P (Os_path_isdir p)"
    "\<And>p. P (TextToTextModel_from_pretrained p)" "P T5ModelConfig_init" "\<And>x. P (Len x)"
    "\<And>x a. P (Getattr x a)" "\<And>a b c d. P (Get_T5_config a b c d)" "\<And>c. P (TextToTextModel_init c)"
    "\<And>p d. P (Torch_load p d)" "\<And>m s. P (Load_state_dict m s)"
  shows "calls_sat P (train_dpo_load L config)"
  unfolding train_dpo_load_def py_call_def py_isdir_def
  by (intro calls_sat_seq calls_sat_ret calls_sat_if calls_sat_invoke assms)

lemma train_dpo_calls_save:
  "calls_sat (\<lambda>c. set (save_model_dir_of c) \<subseteq> {model_save_dir config peft_config})
     (train_dpo L config peft_config)"
  unfolding train_dpo_def py_call_def py_strftime_def split_def
  by (intro calls_sat_intros train_dpo_load_calls; simp)

lemma train_dpo_calls_peft:
  "calls_sat (\<lambda>c. set (peft_config_of c) \<subseteq> {peft_config}) (train_dpo L config peft_config)"
  unfolding train_dpo_def py_call_def py_strftime_def split_def
  by (intro calls_sat_intros train_dpo_load_calls; simp)

lemma save_model_dirs_simps [simp]:
  "save_model_dirs [] = []"
  "save_model_dirs (ev # t) = save_model_dir_of (fst ev) @ save_model_dirs t"
  "save_model_dirs (t @ u) = save_model_dirs t @ save_model_dirs u"
  by (simp_all add: save_model_dirs_def)

lemma train_dpo_load_no_save:
  assumes "train_dpo_load L config w = (r, t, w')"
  shows "save_model_dirs t = []"
  unfolding save_model_dirs_def
  by (rule concat_map_empty, rule calls_satD[where m = "train_dpo_load L config", OF _ assms],
      rule train_dpo_load_calls) simp_all

lemma get_dataset_no_save:
  assumes "get_dataset L s f c w = (r, t, w')"
  shows "save_model_dirs t = []"
  unfolding save_model_dirs_def
  by (rule concat_map_empty, rule calls_satD[where m = "get_dataset L s f c", OF _ assms],
      rule calls_sat_get_dataset) simp_all

lemma train_dpo_success:
  assumes "train_dpo L config peft_config w = (Inr v, t, w')"
  shows "\<exists>trainer x y z. (DPOTrainer_train trainer, Inr x) \<in> set t \<and>
           drop (length t - 2) t =
             [(DPOTrainer_save_model trainer (model_save_dir config peft_config), Inr y),
              (Print (''save model or lora adapter to: '' @ model_save_dir config peft_config), Inr z)]
          \<and> save_model_dirs t = [model_save_dir config peft_config]"
  using assms unfolding train_dpo_def split_def py_strftime_def py_call_def
  by (elim seq_InrE invokeE retE) (auto simp: train_dpo_load_no_save get_dataset_no_save)

text \<open>
  C2. Every directory \<^verbatim>\<open>train_dpo\<close> hands to \<^verbatim>\<open>save_model\<close> is the path of the
  source model with its last segment removed, followed by \<^verbatim>\<open>/lora/\<close> when an adapter
  configuration is given and by \<^verbatim>\<open>/dpo\<close> when none is; a run that returns has saved
  exactly once, there, the trainer it has trained, as its last call before the final print.
\<close>

theorem train_dpo_save_dir:
  assumes "train_dpo L config peft_config w = (r, t, w')"
  shows "set (save_model_dirs t) \<subseteq>
           {path_minus_last_segment (sft_model_file config) @
              (if peft_config = None then ''/dpo'' else ''/lora/'')} \<and>
         (\<forall>v. r = Inr v \<longrightarrow>
            save_model_dirs t =
              [path_minus_last_segment (sft_model_file config) @
                 (if peft_config = None then ''/dpo'' else ''/lora/'')] \<and>
            (\<exists>trainer x y z. (DPOTrainer_train trainer, Inr x) \<in> set t \<and>
               drop (length t - 2) t =
                 [(DPOTrainer_save_model trainer
                     (path_minus_last_segment (sft_model_file config) @
                        (if peft_config = None then ''/dpo'' else ''/lora/'')), Inr y),
                  (Print (''save model or lora adapter to: '' @
                     path_minus_last_segment (sft_model_file config) @
                        (if peft_config = None then ''/dpo'' else ''/lora/'')), Inr z)]))"
proof -
  have "set (save_model_dirs t) \<subseteq> {model_save_dir config peft_config}"
    unfolding save_model_dirs_def
    by (rule concat_map_subset, rule calls_satD[OF train_dpo_calls_save assms])
  moreover have "\<forall>v. r = Inr v \<longrightarrow>
      save_model_dirs t = [model_save_dir config peft_config] \<and>
      (\<exists>trainer x y z. (DPOTrainer_train trainer, Inr x) \<in> set t \<and>
         drop (length t - 2) t =
           [(DPOTrainer_save_model trainer (model_save_dir config peft_config), Inr y),
            (Print (''save model or lora adapter to: '' @ model_save_dir config peft_config), Inr z)])"
  proof (intro allI impI)
    fix v assume "r = Inr v"
    with assms have "train_dpo L config peft_config w = (Inr v, t, w')" by simp
    from train_dpo_success[OF this]
    show "save_model_dirs t = [model_save_dir config peft_config] \<and>
      (\<exists>trainer x y z. (DPOTrainer_train trainer, Inr x) \<in> set t \<and>
         drop (length t - 2) t =
           [(DPOTrainer_save_model trainer (model_save_dir config peft_config), Inr y),
            (Print (''save model or lora adapter to: '' @ model_save_dir config peft_config), Inr z)])"
      by blast
  qed
  ultimately show ?thesis unfolding model_save_dir_eq by blast
qed

theorem train_dpo_save_dir_witness:
  "fst (train_dpo toy_library (toy_config ''m/sft.bin'') (Some main_peft_config) toy_start) = Inr PyNone \<and>
   save_model_dirs (fst (snd (train_dpo toy_library (toy_config ''m/sft.bin'') (Some main_peft_config) toy_start)))
     = [''m/lora/''] \<and>
   fst (train_dpo toy_library (toy_config ''m/sft'') None toy_start) = Inr PyNone \<and>
   save_model_dirs (fst (snd (train_dpo toy_library (toy_config ''m/sft'') None toy_start)))
     = [''m/dpo'']"
proof -
  obtain t1 u1 where r1: "train_dpo toy_library (toy_config ''m/sft.bin'') (Some main_peft_config) toy_start
      = (Inr PyNone, t1, u1)"
    by (simp add: train_dpo_def train_dpo_load_def get_dataset_def prog_defs toy_defs)
  obtain t2 u2 where r2: "train_dpo toy_library (toy_config ''m/sft'') None toy_start
      = (Inr PyNone, t2, u2)"
    by (simp add: train_dpo_def train_dpo_load_def get_dataset_def prog_defs toy_defs)
  have p1: "path_minus_last_segment (sft_model_file (toy_config ''m/sft.bin'')) = ''m''"
    by (simp add: path_minus_last_segment_def toy_config_def)
  have p2: "path_minus_last_segment (sft_model_file (toy_config ''m/sft'')) = ''m''"
    by (simp add: path_minus_last_segment_def toy_config_def)
  from train_dpo_save_dir[OF r1] have "save_model_dirs t1 = [''m/lora/'']"
    unfolding p1 by simp
  moreover from train_dpo_save_dir[OF r2] have "save_model_dirs t2 = [''m/dpo'']"
    unfolding p2 by simp
  ultimately show ?thesis using r1 r2 by simp
qed

section \<open>The paths of \<^verbatim>\<open>merge_lora_weight_into_model\<close>\<close>

lemma adapter_dirs_simps [simp]:
  "adapter_dirs [] = []"
  "adapter_dirs (ev # t) = adapter_dir_of (fst ev) @ adapter_dirs t"
  "adapter_dirs (t @ u) = adapter_dirs t @ adapter_dirs u"
  by (simp_all add: adapter_dirs_def)

lemma save_pretrained_paths_simps [simp]:
  "save_pretrained_paths [] = []"
  "save_pretrained_paths (ev # t) = save_pretrained_path_of (fst ev) @ save_pretrained_paths t"
  "save_pretrained_paths (t @ u) = save_pretrained_paths t @ save_pretrained_paths u"
  by (simp_all add: save_pretrained_paths_def)

lemma merge_calls_adapter:
  "calls_sat (\<lambda>c. set (adapter_dir_of c) \<subseteq> {adapter_save_dir config})
     (merge_lora_weight_into_model L config lora_config)"
  unfolding merge_lora_weight_into_model_def py_call_def py_isdir_def
  by (intro calls_sat_seq calls_sat_ret calls_sat_if calls_sat_invoke; simp)

lemma merge_calls_save:
  "calls_sat (\<lambda>c. set (save_pretrained_path_of c) \<subseteq> {save_merge_file config})
     (merge_lora_weight_into_model L config lora_config)"
  unfolding merge_lora_weight_into_model_def py_call_def py_isdir_def
  by (intro calls_sat_seq calls_sat_ret calls_sat_if calls_sat_invoke; simp)

lemma merge_success:
  assumes "merge_lora_weight_into_model L config lora_config w = (Inr v, t, w')"
  shows "adapter_dirs t = [adapter_save_dir config, adapter_save_dir config] \<and>
         save_pretrained_paths t = [save_merge_file config]"
  using assms unfolding merge_lora_weight_into_model_def py_call_def py_isdir_def
  by (elim seq_InrE invokeE retE) (auto split: if_splits elim!: seq_InrE invokeE retE)

text \<open>
  C3. Every directory \<^verbatim>\<open>merge_lora_weight_into_model\<close> loads an adapter from is
  the path of the base model with its last segment removed, followed by \<^verbatim>\<open>/lora\<close>;
  every path it hands to \<^verbatim>\<open>save_pretrained\<close> is the path of the base model followed
  by \<^verbatim>\<open>.dpo_lora_merged\<close>. A run that returns has loaded the adapter twice
  (\<^verbatim>\<open>PeftModel.from_pretrained\<close>, then \<^verbatim>\<open>load_adapter\<close>) and saved once.
\<close>

theorem merge_paths:
  assumes "merge_lora_weight_into_model L config lora_config w = (r, t, w')"
  shows "set (adapter_dirs t) \<subseteq> {path_minus_last_segment (sft_model_file config) @ ''/lora''} \<and>
         set (save_pretrained_paths t) \<subseteq> {sft_model_file config @ ''.dpo_lora_merged''} \<and>
         (\<forall>v. r = Inr v \<longrightarrow>
            adapter_dirs t = [path_minus_last_segment (sft_model_file config) @ ''/lora'',
                              path_minus_last_segment (sft_model_file config) @ ''/lora''] \<and>
            save_pretrained_paths t = [sft_model_file config @ ''.dpo_lora_merged''])"
proof -
  have a: "set (adapter_dirs t) \<subseteq> {adapter_save_dir config}"
    unfolding adapter_dirs_def
    by (rule concat_map_subset, rule calls_satD[OF merge_calls_adapter assms])
  have b: "set (save_pretrained_paths t) \<subseteq> {save_merge_file config}"
    unfolding save_pretrained_paths_def
    by (rule concat_map_subset, rule calls_satD[OF merge_calls_save assms])
  have c: "\<forall>v. r = Inr v \<longrightarrow>
      adapter_dirs t = [adapter_save_dir config, adapter_save_dir config] \<and>
      save_pretrained_paths t = [save_merge_file config]"
  proof (intro allI impI)
    fix v assume "r = Inr v"
    with assms have "merge_lora_weight_into_model L config lora_config w = (Inr v, t, w')" by simp
    then show "adapter_dirs t = [adapter_save_dir config, adapter_save_dir config] \<and>
      save_pretrained_paths t = [save_merge_file config]"
      by (rule merge_success)
  qed
  from a b c show ?thesis unfolding adapter_save_dir_eq save_merge_file_def by blast
qed

theorem merge_paths_witness:
  "fst (merge_lora_weight_into_model toy_library (toy_config ''m/sft.bin'') main_peft_config toy_start)
     = Inr PyNone \<and>
   adapter_dirs (fst (snd (merge_lora_weight_into_model toy_library (toy_config ''m/sft.bin'')
     main_peft_config toy_start))) = [''m/lora'', ''m/lora''] \<and>
   save_pretrained_paths (fst (snd (merge_lora_weight_into_model toy_library (toy_config ''m/sft.bin'')
     main_peft_config toy_start))) = [''m/sft.bin.dpo_lora_merged'']"
proof -
  obtain t1 u1 where r1: "merge_lora_weight_into_model toy_library (toy_config ''m/sft.bin'')
      main_peft_config toy_start = (Inr PyNone, t1, u1)"
    by (simp add: merge_lora_weight_into_model_def adapter_save_dir_def save_merge_file_def
          slice_0_m1_def prog_defs toy_defs)
  have p1: "path_minus_last_segment ''m/sft.bin'' = ''m''"
    by (simp add: path_minus_last_segment_def)
  have p2: "sft_model_file (toy_config ''m/sft.bin'') = ''m/sft.bin''"
    by (simp add: toy_config_def)
  from merge_paths[OF r1] have "adapter_dirs t1 = [''m/lora'', ''m/lora''] \<and>
      save_pretrained_paths t1 = [''m/sft.bin.dpo_lora_merged'']"
    unfolding p2 p1 by simp
  then show ?thesis using r1 by simp
qed

section \<open>The entry point\<close>

lemma trainer_peft_configs_simps [simp]:
  "trainer_peft_configs [] = []"
  "trainer_peft_configs (ev # t) = peft_config_of (fst ev) @ trainer_peft_configs t"
  "trainer_peft_configs (t @ u) = trainer_peft_configs t @ trainer_peft_configs u"
  by (simp_all add: trainer_peft_configs_def)

text \<open>
  C4, as the code has it. The \<^verbatim>\<open>__main__\<close> block builds the adapter settings but
  calls \<^verbatim>\<open>train_dpo\<close> with \<^verbatim>\<open>peft_config=None\<close>: a run of the block is a run of
  \<^verbatim>\<open>train_dpo\<close> without an adapter configuration, the trainer is never built with
  one, and nothing is saved anywhere but under \<^verbatim>\<open>/dpo\<close>.
\<close>

theorem main_trains_without_adapter:
  assumes "main L dpo_config w = (r, t, w')"
  shows "train_dpo L dpo_config None w = (r, t, w') \<and>
         set (trainer_peft_configs t) \<subseteq> {None} \<and>
         set (save_model_dirs t) \<subseteq> {path_minus_last_segment (sft_model_file dpo_config) @ ''/dpo''}"
proof -
  have run: "train_dpo L dpo_config None w = (r, t, w')"
    using assms by (simp add: main_def)
  have "set (trainer_peft_configs t) \<subseteq> {None}"
    unfolding trainer_peft_configs_def
    by (rule concat_map_subset, rule calls_satD[OF train_dpo_calls_peft run])
  moreover have "set (save_model_dirs t) \<subseteq> {model_save_dir dpo_config None}"
    unfolding save_model_dirs_def
    by (rule concat_map_subset, rule calls_satD[OF train_dpo_calls_save run])
  ultimately show ?thesis using run by (simp add: model_save_dir_eq)
qed

theorem main_trains_without_adapter_witness:
  "fst (main toy_library (toy_config ''m/sft'') toy_start) = Inr PyNone \<and>
   train_dpo toy_library (toy_config ''m/sft'') None toy_start = main toy_library (toy_config ''m/sft'') toy_start \<and>
   set (trainer_peft_configs (fst (snd (main toy_library (toy_config ''m/sft'') toy_start)))) \<subseteq> {None} \<and>
   set (save_model_dirs (fst (snd (main toy_library (toy_config ''m/sft'') toy_start)))) \<subseteq> {''m/dpo''}"
proof -
  obtain t1 u1 where r1: "main toy_library (toy_config ''m/sft'') toy_start = (Inr PyNone, t1, u1)"
    by (simp add: main_def train_dpo_def train_dpo_load_def get_dataset_def prog_defs toy_defs)
  have p: "path_minus_last_segment (sft_model_file (toy_config ''m/sft'')) = ''m''"
    by (simp add: path_minus_last_segment_def toy_config_def)
  from main_trains_without_adapter[OF r1] r1 show ?thesis
    unfolding p by simp
qed

text \<open>
  C4, as the claim has it, fails: in the small world the block builds its trainer with
  no adapter configuration, and its run differs from the run of \<^verbatim>\<open>train_dpo\<close> with
  the adapter settings the block has built.
\<close>

theorem main_does_not_pass_adapter_settings:
  "trainer_peft_configs (fst (snd (main toy_library (toy_config ''m/sft'') toy_start))) = [None] \<and>
   main toy_library (toy_config ''m/sft'') toy_start \<noteq>
     train_dpo toy_library (toy_config ''m/sft'') (Some main_peft_config) toy_start"
proof -
  have a: "trainer_peft_configs (fst (snd (main toy_library (toy_config ''m/sft'') toy_start))) = [None]"
    by (simp add: main_def train_dpo_def train_dpo_load_def get_dataset_def prog_defs toy_defs)
  have b: "trainer_peft_configs (fst (snd (train_dpo toy_library (toy_config ''m/sft'')
      (Some main_peft_config) toy_start))) = [Some main_peft_config]"
    by (simp add: train_dpo_def train_dpo_load_def get_dataset_def prog_defs toy_defs)
  from a b have "main toy_library (toy_config ''m/sft'') toy_start \<noteq>
      train_dpo toy_library (toy_config ''m/sft'') (Some main_peft_config) toy_start"
    by (metis list.inject option.distinct(1))
  with a show ?thesis by simp
qed

section \<open>How \<^verbatim>\<open>train_dpo\<close> loads the two models\<close>

lemma calls_satE:
  assumes "m w = (r, t, w')" "calls_sat P m"
  shows "\<forall>ev \<in> set t. P (fst ev)"
  using assms unfolding calls_sat_def by blast

lemma train_dpo_trainer_init:
  assumes "train_dpo L config peft_config w = (r, t, w')"
    and "(DPOTrainer_init kw, out) \<in> set t"
  shows "\<exists>t0 w1 rest. train_dpo_load L config w =
            (Inr (dt_tokenizer kw, dt_model kw, dt_ref_model kw), t0, w1) \<and> t = t0 @ rest"
  using assms(1)[unfolded train_dpo_def]
proof (cases rule: seqE)
  case (raised e)
  have "\<forall>ev \<in> set t. (\<forall>k. fst ev \<noteq> DPOTrainer_init k)"
    by (rule calls_satD[where m = "train_dpo_load L config", OF _ raised(1)],
        rule train_dpo_load_calls) simp_all
  with assms(2) show ?thesis by force
next
  case (returned a t1 w1 t2)
  obtain tok m1 m2 where a: "a = (tok, m1, m2)" by (cases a)
  have 1: "\<forall>ev \<in> set t1. (\<forall>k. fst ev \<noteq> DPOTrainer_init k)"
    by (rule calls_satD[where m = "train_dpo_load L config", OF _ returned(1)],
        rule train_dpo_load_calls) simp_all
  from returned(2)[unfolded a prod.case py_call_def py_strftime_def]
  have 2: "\<forall>ev \<in> set t2. (\<forall>k. fst ev = DPOTrainer_init k \<longrightarrow>
      dt_tokenizer k = tok \<and> dt_model k = m1 \<and> dt_ref_model k = m2)"
    by (rule calls_satE) (intro calls_sat_intros; simp)
  from assms(2) returned(3) 1 2 have "dt_tokenizer kw = tok \<and> dt_model kw = m1 \<and> dt_ref_model kw = m2"
    by force
  with returned(1) returned(3) a show ?thesis by auto
qed

lemma train_dpo_load_shape:
  assumes "train_dpo_load L config w = (Inr (tok, m1, m2), t, w1)"
  shows "\<exists>d. take 2 t =
            [(PreTrainedTokenizerFast_from_pretrained (tokenizer_dir config), Inr tok),
             (Os_path_isdir (sft_model_file config), Inr (PyBool d))] \<and>
          (d \<longrightarrow> drop 2 t =
            [(TextToTextModel_from_pretrained (sft_model_file config), Inr m1),
             (TextToTextModel_from_pretrained (sft_model_file config), Inr m2)]) \<and>
          (\<not> d \<longrightarrow> (\<exists>mc n pd eo c s1 s2 x1 x2. drop 2 t =
            [(T5ModelConfig_init, Inr mc),
             (Len tok, Inr n),
             (Getattr tok ''pad_token_id'', Inr pd),
             (Getattr tok ''eos_token_id'', Inr eo),
             (Get_T5_config mc n pd eo, Inr c),
             (TextToTextModel_init c, Inr m1),
             (Torch_load (sft_model_file config) ''cpu'', Inr s1),
             (Load_state_dict m1 s1, Inr x1),
             (TextToTextModel_init c, Inr m2),
             (Torch_load (sft_model_file config) ''cpu'', Inr s2),
             (Load_state_dict m2 s2, Inr x2)]))"
  using assms unfolding train_dpo_load_def py_call_def py_isdir_def
  by (elim seq_InrE invokeE retE) (auto split: if_splits elim!: seq_InrE invokeE retE)

text \<open>
  C7. In a run of \<^verbatim>\<open>train_dpo\<close> that gets as far as building the trainer, the model
  and the reference model handed to the trainer come from the loading step, which made
  these calls after loading the tokenizer: when \<^verbatim>\<open>os.path.isdir\<close> answered yes, two
  calls of \<^verbatim>\<open>from_pretrained\<close> on the configured path, the first returning the
  trainable model and the second the reference model; otherwise one architecture
  configuration, and for each of the two models a constructor call on it,
  \<^verbatim>\<open>torch.load\<close> of the configured path and \<^verbatim>\<open>load_state_dict\<close> of what was loaded.
\<close>

theorem train_dpo_model_loading:
  assumes "train_dpo L config peft_config w = (r, t, w')"
    and "(DPOTrainer_init kw, out) \<in> set t"
  shows "\<exists>t0 rest d. t = t0 @ rest \<and>
          take 2 t0 =
            [(PreTrainedTokenizerFast_from_pretrained (tokenizer_dir config), Inr (dt_tokenizer kw)),
             (Os_path_isdir (sft_model_file config), Inr (PyBool d))] \<and>
          (d \<longrightarrow> drop 2 t0 =
            [(TextToTextModel_from_pretrained (sft_model_file config), Inr (dt_model kw)),
             (TextToTextModel_from_pretrained (sft_model_file config), Inr (dt_ref_model kw))]) \<and>
          (\<not> d \<longrightarrow> (\<exists>mc n pd eo c s1 s2 x1 x2. drop 2 t0 =
            [(T5ModelConfig_init, Inr mc),
             (Len (dt_tokenizer kw), Inr n),
             (Getattr (dt_tokenizer kw) ''pad_token_id'', Inr pd),
             (Getattr (dt_tokenizer kw) ''eos_token_id'', Inr eo),
             (Get_T5_config mc n pd eo, Inr c),
             (TextToTextModel_init c, Inr (dt_model kw)),
             (Torch_load (sft_model_file config) ''cpu'', Inr s1),
             (Load_state_dict (dt_model kw) s1, Inr x1),
             (TextToTextModel_init c, Inr (dt_ref_model kw)),
             (Torch_load (sft_model_file config) ''cpu'', Inr s2),
             (Load_state_dict (dt_ref_model kw) s2, Inr x2)]))"
proof -
  from train_dpo_trainer_init[OF assms] obtain t0 w1 rest where
    load: "train_dpo_load L config w = (Inr (dt_tokenizer kw, dt_model kw, dt_ref_model kw), t0, w1)"
    and t: "t = t0 @ rest" by blast
  from train_dpo_load_shape[OF load] show ?thesis
    apply (elim exE)
    apply (rule exI[of _ t0])
    apply (rule exI[of _ rest])
    apply (rule exI)
    apply (rule conjI)
     apply (rule t)
    apply assumption
    done
qed

theorem train_dpo_model_loading_witness:
  "(DPOTrainer_init
      \<lparr> dt_model = PyObj 1, dt_ref_model = PyObj 2, dt_peft_config = None, dt_args = PyNone,
        dt_beta = 1 / 10,
        dt_train_dataset =
          [\<lparr> prompt = ''p2[EOS]'', chosen = ''c2[EOS]'', rejected = ''r2[EOS]'' \<rparr>,
           \<lparr> prompt = ''p1[EOS]'', chosen = ''c1[EOS]'', rejected = ''r1[EOS]'' \<rparr>],
        dt_eval_dataset = PyNone, dt_tokenizer = PyObj 0, dt_max_length = 520,
        dt_max_target_length = 520, dt_max_prompt_length = 520,
        dt_generate_during_eval = True, dt_is_encoder_decoder = True \<rparr>, Inr (PyObj 3))
     \<in> set (fst (snd (train_dpo toy_library (toy_config ''m/sft'') None toy_start))) \<and>
   (\<exists>t0 rest d.
      fst (snd (train_dpo toy_library (toy_config ''m/sft'') None toy_start)) = t0 @ rest \<and>
      take 2 t0 =
        [(PreTrainedTokenizerFast_from_pretrained ''m/tok'', Inr (PyObj 0)),
         (Os_path_isdir ''m/sft'', Inr (PyBool d))] \<and>
      (d \<longrightarrow> drop 2 t0 =
        [(TextToTextModel_from_pretrained ''m/sft'', Inr (PyObj 1)),
         (TextToTextModel_from_pretrained ''m/sft'', Inr (PyObj 2))]))"
proof -
  let ?run = "train_dpo toy_library (toy_config ''m/sft'') None toy_start"
  let ?kw = "\<lparr> dt_model = PyObj 1, dt_ref_model = PyObj 2, dt_peft_config = None, dt_args = PyNone,
        dt_beta = 1 / 10,
        dt_train_dataset =
          [\<lparr> prompt = ''p2[EOS]'', chosen = ''c2[EOS]'', rejected = ''r2[EOS]'' \<rparr>,
           \<lparr> prompt = ''p1[EOS]'', chosen = ''c1[EOS]'', rejected = ''r1[EOS]'' \<rparr>],
        dt_eval_dataset = PyNone, dt_tokenizer = PyObj 0, dt_max_length = 520,
        dt_max_target_length = 520, dt_max_prompt_length = 520,
        dt_generate_during_eval = True, dt_is_encoder_decoder = True \<rparr>"
  have run: "?run = (fst ?run, fst (snd ?run), snd (snd ?run))" by simp
  have mem: "(DPOTrainer_init ?kw, Inr (PyObj 3)) \<in> set (fst (snd ?run))"
    by (simp add: train_dpo_def train_dpo_load_def get_dataset_def prog_defs toy_defs
          split_prompt_and_responses_def)
  have c: "tokenizer_dir (toy_config ''m/sft'') = ''m/tok''" "sft_model_file (toy_config ''m/sft'') = ''m/sft''"
    by (simp_all add: toy_config_def)
  from train_dpo_model_loading[OF run mem, unfolded c] obtain t0 rest d where
    f1: "fst (snd ?run) = t0 @ rest" and
    f2: "take 2 t0 = [(PreTrainedTokenizerFast_from_pretrained ''m/tok'', Inr (dt_tokenizer ?kw)),
                  (Os_path_isdir ''m/sft'', Inr (PyBool d))]" and
    f3: "d \<longrightarrow> drop 2 t0 =
        [(TextToTextModel_from_pretrained ''m/sft'', Inr (dt_model ?kw)),
         (TextToTextModel_from_pretrained ''m/sft'', Inr (dt_ref_model ?kw))]"
    by (elim exE conjE)
  have "\<exists>t0 rest d.
      fst (snd ?run) = t0 @ rest \<and>
      take 2 t0 =
        [(PreTrainedTokenizerFast_from_pretrained ''m/tok'', Inr (PyObj 0)),
         (Os_path_isdir ''m/sft'', Inr (PyBool d))] \<and>
      (d \<longrightarrow> drop 2 t0 =
        [(TextToTextModel_from_pretrained ''m/sft'', Inr (PyObj 1)),
         (TextToTextModel_from_pretrained ''m/sft'', Inr (PyObj 2))])"
    by (rule exI[of _ t0], rule exI[of _ rest], rule exI[of _ d]) (use f1 f2 f3 in simp)
  with mem show ?thesis by (rule conjI)
qed

section \<open>The weights of the two models after loading\<close>

lemma lc_from_pretrained:
  assumes "loading_contract L weights disk"
    and "lib_call L (TextToTextModel_from_pretrained p) w = (Inr m, w')"
  shows "weights w m = None" "disk w p \<noteq> None"
    "weights w' = (weights w)(m := disk w p)" "disk w' = disk w"
  using assms unfolding loading_contract_def by blast+

lemma lc_init:
  assumes "loading_contract L weights disk"
    and "lib_call L (TextToTextModel_init c) w = (Inr m, w')"
  shows "weights w m = None" "\<And>x. x \<noteq> m \<Longrightarrow> weights w' x = weights w x" "disk w' = disk w"
  using assms unfolding loading_contract_def by blast+

lemma lc_torch_load:
  assumes "loading_contract L weights disk"
    and "lib_call L (Torch_load p d) w = (Inr s, w')"
  shows "weights w s = None" "disk w p \<noteq> None"
    "weights w' = (weights w)(s := disk w p)" "disk w' = disk w"
  using assms unfolding loading_contract_def by blast+

lemma lc_load_state_dict:
  assumes "loading_contract L weights disk"
    and "lib_call L (Load_state_dict m s) w = (Inr x, w')"
  shows "weights w' = (weights w)(m := weights w s)" "disk w' = disk w"
  using assms unfolding loading_contract_def by blast+

lemma load_from_directory:
  assumes c: "loading_contract L weights disk"
    and a: "lib_call L (TextToTextModel_from_pretrained p) w = (Inr m1, wa)"
    and b: "lib_call L (TextToTextModel_from_pretrained p) wa = (Inr m2, wb)"
  shows "weights wb m2 = weights wb m1 \<and> weights wb m1 = disk wb p \<and> weights wb m1 \<noteq> None"
proof -
  note A = lc_from_pretrained[OF c a] and B = lc_from_pretrained[OF c b]
  have m1: "weights wa m1 = disk w p" using A(3) by simp
  have ne: "m1 \<noteq> m2" using m1 A(2) B(1) by auto
  have "weights wb m1 = disk w p" using B(3) ne m1 by simp
  moreover have "weights wb m2 = disk w p" using B(3) A(4) by simp
  moreover have "disk wb p = disk w p" using A(4) B(4) by simp
  ultimately show ?thesis using A(2) by simp
qed

lemma load_from_state_file:
  assumes c: "loading_contract L weights disk"
    and i1: "lib_call L (TextToTextModel_init cfg) w0 = (Inr m1, w1)"
    and l1: "lib_call L (Torch_load p dev) w1 = (Inr s1, w2)"
    and d1: "lib_call L (Load_state_dict m1 s1) w2 = (Inr x1, w3)"
    and i2: "lib_call L (TextToTextModel_init cfg) w3 = (Inr m2, w4)"
    and l2: "lib_call L (Torch_load p dev) w4 = (Inr s2, w5)"
    and d2: "lib_call L (Load_state_dict m2 s2) w5 = (Inr x2, w6)"
  shows "weights w6 m2 = weights w6 m1 \<and> weights w6 m1 = disk w6 p \<and> weights w6 m1 \<noteq> None"
proof -
  note I1 = lc_init[OF c i1] and L1 = lc_torch_load[OF c l1] and D1 = lc_load_state_dict[OF c d1]
    and I2 = lc_init[OF c i2] and L2 = lc_torch_load[OF c l2] and D2 = lc_load_state_dict[OF c d2]
  have dsk: "disk w2 = disk w1" "disk w3 = disk w1" "disk w4 = disk w1" "disk w5 = disk w1" "disk w6 = disk w1"
    using L1(4) D1(2) I2(3) L2(4) D2(2) by simp_all
  have s1: "weights w2 s1 = disk w1 p" using L1(3) by simp
  have a3: "weights w3 m1 = disk w1 p" using D1(1) s1 by simp
  have n12: "m1 \<noteq> m2" using a3 L1(2) I2(1) by auto
  have a4: "weights w4 m1 = disk w1 p" using I2(2)[of m1] n12 a3 by simp
  have n1s: "m1 \<noteq> s2" using a4 L1(2) L2(1) by auto
  have a5: "weights w5 m1 = disk w1 p" using L2(3) n1s a4 by simp
  have s2: "weights w5 s2 = disk w1 p" using L2(3) dsk by simp
  have a6: "weights w6 m1 = disk w1 p" using D2(1) n12 a5 by simp
  have b6: "weights w6 m2 = disk w1 p" using D2(1) s2 by simp
  show ?thesis using a6 b6 dsk L1(2) by simp
qed

lemma train_dpo_load_weights:
  assumes c: "loading_contract L weights disk"
    and run: "train_dpo_load L config w = (Inr (tok, m1, m2), t, w1)"
  shows "weights w1 m2 = weights w1 m1 \<and> weights w1 m1 = disk w1 (sft_model_file config) \<and>
         weights w1 m1 \<noteq> None"
proof -
  define good where "good u a b \<longleftrightarrow>
    weights u b = weights u a \<and> weights u a = disk u (sft_model_file config) \<and> weights u a \<noteq> None"
    for u a b
  have dir: "\<And>u ua ub a b.
      lib_call L (TextToTextModel_from_pretrained (sft_model_file config)) u = (Inr a, ua) \<Longrightarrow>
      lib_call L (TextToTextModel_from_pretrained (sft_model_file config)) ua = (Inr b, ub) \<Longrightarrow>
      good ub a b"
    unfolding good_def by (rule load_from_directory[OF c])
  have raw: "\<And>cfg u0 u1 u2 u3 u4 u5 u6 a b s1 s2 x1 x2.
      lib_call L (TextToTextModel_init cfg) u0 = (Inr a, u1) \<Longrightarrow>
      lib_call L (Torch_load (sft_model_file config) ''cpu'') u1 = (Inr s1, u2) \<Longrightarrow>
      lib_call L (Load_state_dict a s1) u2 = (Inr x1, u3) \<Longrightarrow>
      lib_call L (TextToTextModel_init cfg) u3 = (Inr b, u4) \<Longrightarrow>
      lib_call L (Torch_load (sft_model_file config) ''cpu'') u4 = (Inr s2, u5) \<Longrightarrow>
      lib_call L (Load_state_dict b s2) u5 = (Inr x2, u6) \<Longrightarrow>
      good u6 a b"
    unfolding good_def by (rule load_from_state_file[OF c])
  have "good w1 m1 m2"
    using run unfolding train_dpo_load_def py_call_def py_isdir_def
    by (elim seq_InrE invokeE retE)
       (auto split: if_splits elim!: seq_InrE invokeE retE intro: dir raw)
  then show ?thesis unfolding good_def .
qed

text \<open>
  C10. In a run of \<^verbatim>\<open>train_dpo\<close> that gets as far as building the trainer, in the
  world the loading step leaves behind, the reference model handed to the trainer holds
  the same weights as the trainable model, namely what is stored under the configured
  path; this holds on both branches of the loading step.
\<close>

theorem reference_model_starts_equal:
  assumes "loading_contract L weights disk"
    and "train_dpo L config peft_config w = (r, t, w')"
    and "(DPOTrainer_init kw, out) \<in> set t"
  shows "\<exists>t0 w1 rest.
           train_dpo_load L config w = (Inr (dt_tokenizer kw, dt_model kw, dt_ref_model kw), t0, w1) \<and>
           t = t0 @ rest \<and>
           weights w1 (dt_ref_model kw) = weights w1 (dt_model kw) \<and>
           weights w1 (dt_model kw) = disk w1 (sft_model_file config) \<and>
           weights w1 (dt_model kw) \<noteq> None"
proof -
  from train_dpo_trainer_init[OF assms(2,3)] obtain t0 w1 rest where
    load: "train_dpo_load L config w = (Inr (dt_tokenizer kw, dt_model kw, dt_ref_model kw), t0, w1)"
    and t: "t = t0 @ rest" by blast
  from train_dpo_load_weights[OF assms(1) load] load t show ?thesis by blast
qed

lemma toy_loading_contract: "loading_contract toy_library toy_weights toy_disk"
  unfolding loading_contract_def
  by (auto simp: toy_library_def toy_load_def toy_alloc_def toy_weights_def toy_disk_def
        fun_eq_iff nth_append
      split: option.splits pyval.splits if_splits)

theorem reference_model_starts_equal_witness:
  "loading_contract toy_library toy_weights toy_disk \<and>
   (\<exists>t0 w1 rest.
      train_dpo_load toy_library (toy_config ''m/sft.bin'') toy_start =
        (Inr (PyObj 0, PyObj 1, PyObj 3), t0, w1) \<and>
      fst (snd (train_dpo toy_library (toy_config ''m/sft.bin'') None toy_start)) = t0 @ rest \<and>
      toy_weights w1 (PyObj 3) = toy_weights w1 (PyObj 1) \<and>
      toy_weights w1 (PyObj 1) = toy_disk w1 ''m/sft.bin'' \<and>
      toy_weights w1 (PyObj 1) \<noteq> None)"
proof -
  let ?run = "train_dpo toy_library (toy_config ''m/sft.bin'') None toy_start"
  let ?kw = "\<lparr> dt_model = PyObj 1, dt_ref_model = PyObj 3, dt_peft_config = None, dt_args = PyNone,
        dt_beta = 1 / 10,
        dt_train_dataset =
          [\<lparr> prompt = ''p2[EOS]'', chosen = ''c2[EOS]'', rejected = ''r2[EOS]'' \<rparr>,
           \<lparr> prompt = ''p1[EOS]'', chosen = ''c1[EOS]'', rejected = ''r1[EOS]'' \<rparr>],
        dt_eval_dataset = PyNone, dt_tokenizer = PyObj 0, dt_max_length = 520,
        dt_max_target_length = 520, dt_max_prompt_length = 520,
        dt_generate_during_eval = True, dt_is_encoder_decoder = True \<rparr>"
  have run: "?run = (fst ?run, fst (snd ?run), snd (snd ?run))" by simp
  have mem: "(DPOTrainer_init ?kw, Inr (PyObj 5)) \<in> set (fst (snd ?run))"
    by (simp add: train_dpo_def train_dpo_load_def get_dataset_def prog_defs toy_defs
          split_prompt_and_responses_def)
  have c: "sft_model_file (toy_config ''m/sft.bin'') = ''m/sft.bin''"
    by (simp add: toy_config_def)
  from reference_model_starts_equal[OF toy_loading_contract run mem, unfolded c]
  have "\<exists>t0 w1 rest.
      train_dpo_load toy_library (toy_config ''m/sft.bin'') toy_start =
        (Inr (PyObj 0, PyObj 1, PyObj 3), t0, w1) \<and>
      fst (snd ?run) = t0 @ rest \<and>
      toy_weights w1 (PyObj 3) = toy_weights w1 (PyObj 1) \<and>
      toy_weights w1 (PyObj 1) = toy_disk w1 ''m/sft.bin'' \<and>
      toy_weights w1 (PyObj 1) \<noteq> None"
    by simp
  with toy_loading_contract show ?thesis by (rule conjI)
qed

section \<open>What \<^verbatim>\<open>merge_lora_weight_into_model\<close> saves\<close>

lemma pc_from_pretrained:
  assumes "peft_contract L weights wrapped disk"
    and "lib_call L (PeftModel_from_pretrained m d c n) w = (Inr pm, w')"
  shows "wrapped w' pm = Some m"
  using assms unfolding peft_contract_def by meson

lemma pc_print:
  assumes "peft_contract L weights wrapped disk"
    and "lib_call L (Print s) w = (Inr x, w')"
  shows "wrapped w' = wrapped w" "weights w' = weights w" "disk w' = disk w"
  using assms unfolding peft_contract_def by meson+

lemma pc_load_adapter:
  assumes "peft_contract L weights wrapped disk"
    and "lib_call L (PeftModel_load_adapter pm d n) w = (Inr x, w')"
  shows "wrapped w' = wrapped w"
  using assms unfolding peft_contract_def by meson

lemma pc_merge_and_unload:
  assumes "peft_contract L weights wrapped disk"
    and "lib_call L (PeftModel_merge_and_unload pm) w = (Inr r, w')"
  shows "wrapped w pm = Some r"
  using assms unfolding peft_contract_def by meson

lemma pc_save_pretrained:
  assumes "peft_contract L weights wrapped disk"
    and "lib_call L (Save_pretrained m p) w = (Inr x, w')"
  shows "weights w' = weights w" "disk w' p = weights w m"
  using assms unfolding peft_contract_def by meson+

lemma merge_chain:
  assumes c: "peft_contract L weights wrapped disk"
    and a1: "lib_call L (PeftModel_from_pretrained sft d cfg n) u0 = (Inr pm, u1)"
    and a2: "lib_call L (Print s) u1 = (Inr x2, u2)"
    and a3: "lib_call L (PeftModel_load_adapter pm d' n') u2 = (Inr x3, u3)"
    and a4: "lib_call L (PeftModel_merge_and_unload pm) u3 = (Inr merged, u4)"
    and a5: "lib_call L (Save_pretrained sft p) u4 = (Inr x5, u5)"
    and a6: "lib_call L (Print s') u5 = (Inr x6, u6)"
  shows "merged = sft \<and> disk u6 p = weights u6 sft"
proof -
  have "wrapped u3 pm = Some sft"
    using pc_from_pretrained[OF c a1] pc_print(1)[OF c a2] pc_load_adapter[OF c a3] by simp
  with pc_merge_and_unload[OF c a4] have m: "merged = sft" by simp
  have "disk u6 p = weights u4 sft"
    using pc_save_pretrained(2)[OF c a5] pc_print(3)[OF c a6] by simp
  moreover have "weights u6 = weights u4"
    using pc_save_pretrained(1)[OF c a5] pc_print(2)[OF c a6] by simp
  ultimately show ?thesis using m by simp
qed

lemma merge_success_run:
  assumes "merge_lora_weight_into_model L config lora_config w = (Inr v, t, w')"
  shows "\<exists>sft pm merged u0 u1 u2 u3 u4 u5 x2 x3 x5 x6.
      lib_call L (PeftModel_from_pretrained sft (adapter_save_dir config) lora_config ''adapter'') u0 = (Inr pm, u1) \<and>
      lib_call L (Print (''Load adapter from dir: '' @ adapter_save_dir config)) u1 = (Inr x2, u2) \<and>
      lib_call L (PeftModel_load_adapter pm (adapter_save_dir config) ''adapter'') u2 = (Inr x3, u3) \<and>
      lib_call L (PeftModel_merge_and_unload pm) u3 = (Inr merged, u4) \<and>
      lib_call L (Save_pretrained sft (save_merge_file config)) u4 = (Inr x5, u5) \<and>
      lib_call L (Print (''Save merged model file to: '' @ save_merge_file config)) u5 = (Inr x6, w') \<and>
      drop (length t - 6) t =
        [(PeftModel_from_pretrained sft (adapter_save_dir config) lora_config ''adapter'', Inr pm),
         (Print (''Load adapter from dir: '' @ adapter_save_dir config), Inr x2),
         (PeftModel_load_adapter pm (adapter_save_dir config) ''adapter'', Inr x3),
         (PeftModel_merge_and_unload pm, Inr merged),
         (Save_pretrained sft (save_merge_file config), Inr x5),
         (Print (''Save merged model file to: '' @ save_merge_file config), Inr x6)]"
  using assms unfolding merge_lora_weight_into_model_def py_call_def py_isdir_def
  by (elim seq_InrE invokeE retE) (simp, blast)

text \<open>
  C5. In a run of \<^verbatim>\<open>merge_lora_weight_into_model\<close> that returns, the last calls are:
  wrap the base model with the adapter, print, load the adapter, merge and unload, save
  the base model under the derived path, print. The object that \<^verbatim>\<open>merge_and_unload\<close>
  returns is the base model object itself, which is the object saved, and what is stored
  under the derived path at the end is what that object then holds.
\<close>

theorem merge_saves_merged_model:
  assumes "peft_contract L weights wrapped disk"
    and "merge_lora_weight_into_model L config lora_config w = (Inr v, t, w')"
  shows "\<exists>sft_model peft_model x2 x3 x5 x6.
      drop (length t - 6) t =
        [(PeftModel_from_pretrained sft_model (adapter_save_dir config) lora_config ''adapter'', Inr peft_model),
         (Print (''Load adapter from dir: '' @ adapter_save_dir config), Inr x2),
         (PeftModel_load_adapter peft_model (adapter_save_dir config) ''adapter'', Inr x3),
         (PeftModel_merge_and_unload peft_model, Inr sft_model),
         (Save_pretrained sft_model (save_merge_file config), Inr x5),
         (Print (''Save merged model file to: '' @ save_merge_file config), Inr x6)] \<and>
      disk w' (save_merge_file config) = weights w' sft_model"
proof -
  from merge_success_run[OF assms(2)] obtain sft pm merged u0 u1 u2 u3 u4 u5 x2 x3 x5 x6 where
    a1: "lib_call L (PeftModel_from_pretrained sft (adapter_save_dir config) lora_config ''adapter'') u0 = (Inr pm, u1)" and
    a2: "lib_call L (Print (''Load adapter from dir: '' @ adapter_save_dir config)) u1 = (Inr x2, u2)" and
    a3: "lib_call L (PeftModel_load_adapter pm (adapter_save_dir config) ''adapter'') u2 = (Inr x3, u3)" and
    a4: "lib_call L (PeftModel_merge_and_unload pm) u3 = (Inr merged, u4)" and
    a5: "lib_call L (Save_pretrained sft (save_merge_file config)) u4 = (Inr x5, u5)" and
    a6: "lib_call L (Print (''Save merged model file to: '' @ save_merge_file config)) u5 = (Inr x6, w')" and
    tr: "drop (length t - 6) t =
        [(PeftModel_from_pretrained sft (adapter_save_dir config) lora_config ''adapter'', Inr pm),
         (Print (''Load adapter from dir: '' @ adapter_save_dir config), Inr x2),
         (PeftModel_load_adapter pm (adapter_save_dir config) ''adapter'', Inr x3),
         (PeftModel_merge_and_unload pm, Inr merged),
         (Save_pretrained sft (save_merge_file config), Inr x5),
         (Print (''Save merged model file to: '' @ save_merge_file config), Inr x6)]"
    by (elim exE conjE)
  from merge_chain[OF assms(1) a1 a2 a3 a4 a5 a6]
  have m: "merged = sft" and d: "disk w' (save_merge_file config) = weights w' sft" by simp_all
  show ?thesis
    by (rule exI[of _ sft], rule exI[of _ pm], rule exI[of _ x2], rule exI[of _ x3],
        rule exI[of _ x5], rule exI[of _ x6]) (use tr m d in simp)
qed

lemma toy_peft_contract: "peft_contract toy_library toy_weights toy_wrapped toy_disk"
  unfolding peft_contract_def
  by (auto simp: toy_library_def toy_weights_def toy_wrapped_def toy_disk_def
      split: option.splits pyval.splits if_splits)

theorem merge_saves_merged_model_witness:
  "peft_contract toy_library toy_weights toy_wrapped toy_disk \<and>
   fst (merge_lora_weight_into_model toy_library (toy_config ''m/sft.bin'') main_peft_config toy_start)
     = Inr PyNone \<and>
   toy_disk (snd (snd (merge_lora_weight_into_model toy_library (toy_config ''m/sft.bin'')
       main_peft_config toy_start))) ''m/sft.bin.dpo_lora_merged'' = Some 12 \<and>
   (\<exists>sft_model. toy_disk (snd (snd (merge_lora_weight_into_model toy_library (toy_config ''m/sft.bin'')
       main_peft_config toy_start))) (save_merge_file (toy_config ''m/sft.bin''))
     = toy_weights (snd (snd (merge_lora_weight_into_model toy_library (toy_config ''m/sft.bin'')
       main_peft_config toy_start))) sft_model)"
proof -
  let ?run = "merge_lora_weight_into_model toy_library (toy_config ''m/sft.bin'') main_peft_config toy_start"
  have r: "fst ?run = Inr PyNone"
    by (simp add: merge_lora_weight_into_model_def adapter_save_dir_def save_merge_file_def
          slice_0_m1_def prog_defs toy_defs)
  then have run: "?run = (Inr PyNone, fst (snd ?run), snd (snd ?run))"
    by (metis prod.collapse)
  have s: "toy_disk (snd (snd ?run)) ''m/sft.bin.dpo_lora_merged'' = Some 12"
    by (simp add: merge_lora_weight_into_model_def adapter_save_dir_def save_merge_file_def
          slice_0_m1_def prog_defs toy_defs)
  from merge_saves_merged_model[OF toy_peft_contract run]
  have "\<exists>sft_model. toy_disk (snd (snd ?run)) (save_merge_file (toy_config ''m/sft.bin''))
      = toy_weights (snd (snd ?run)) sft_model"
    by blast
  with toy_peft_contract r s show ?thesis by blast
qed

end
